theory Spec2Isabelle
  imports Main "HOL-Library.Word"
begin

unbundle bit_operations_syntax

chapter \<open>A bitboard chess engine with alpha-beta search\<close>

text \<open>
  A shallow embedding of the core of the engine: the position record, the attack
  queries, the pseudo-legal move generator, the move applicator, the Zobrist hasher, the
  generic hash table used as transposition table, and the alpha-beta search over a game
  descriptor.  The definitions come first, function by function from the C sources; the
  theorems about them follow.
\<close>

section \<open>Position model (chess\_state.h, chess\_moves.h)\<close>

text \<open>
  The position is the C struct \<^verbatim>\<open>bitboard_state_t\<close>: twelve 64-bit bitboards, four
  unsigned 8-bit scalars and the \<^verbatim>\<open>int\<close> field \<^verbatim>\<open>current_player\<close> (1 = White,
  -1 = Black).  Bit \<open>i\<close> of a bitboard is square \<open>i\<close> (a1 = 0, h1 = 7, a8 = 56, h8 = 63).
  Heap allocation is taken to succeed: the \<^verbatim>\<open>malloc\<close> failure branches of the source are
  not part of the model.  Values of C type \<^verbatim>\<open>int\<close> are modelled as integers: the functions below only
  compare them, negate the player and add small constants to square indices, and the
  overflow of \<^verbatim>\<open>int\<close> is not modelled.
\<close>

type_synonym u64 = "64 word"
type_synonym u8 = "8 word"

record bitboard_state_t =
  white_pawns :: u64
  white_knights :: u64
  white_bishops :: u64
  white_rooks :: u64
  white_queens :: u64
  white_kings :: u64
  black_pawns :: u64
  black_knights :: u64
  black_bishops :: u64
  black_rooks :: u64
  black_queens :: u64
  black_kings :: u64
  castling_rights :: u8
  en_passant :: u8
  halfmove_clock :: u8
  fullmove_number :: u8
  current_player :: int

text \<open>
  \<^verbatim>\<open>chess_move_t\<close>; the C fields \<^verbatim>\<open>from\<close> and \<^verbatim>\<open>to\<close> are named
  \<open>move_from\<close> and \<open>move_to\<close> here.
\<close>

record chess_move_t =
  move_from :: u8
  move_to :: u8
  promotion :: u8
  is_castling :: u8
  is_en_passant :: u8

definition NOT_A_FILE :: u64 where "NOT_A_FILE = 0xfefefefefefefefe"
definition NOT_H_FILE :: u64 where "NOT_H_FILE = 0x7f7f7f7f7f7f7f7f"
definition NOT_AB_FILE :: u64 where "NOT_AB_FILE = 0xfcfcfcfcfcfcfcfc"
definition NOT_GH_FILE :: u64 where "NOT_GH_FILE = 0x3f3f3f3f3f3f3f3f"
definition NOT_HG_FILE :: u64 where "NOT_HG_FILE = 0x3f3f3f3f3f3f3f3f"

text \<open>\<^verbatim>\<open>1ULL << sq\<close> for an \<^verbatim>\<open>int\<close> square; C defines it for \<open>0 \<le> sq < 64\<close> only.\<close>

definition sq_mask :: "int \<Rightarrow> u64" where
  "sq_mask sq = push_bit (nat sq) 1"

text \<open>
  \<^verbatim>\<open>__builtin_ctzll\<close>: the index of the lowest set bit.  The builtin is undefined on
  0; the scan below answers 64 there.
\<close>

fun ctz_scan :: "nat \<Rightarrow> nat \<Rightarrow> u64 \<Rightarrow> nat" where
  "ctz_scan 0 i w = i"
| "ctz_scan (Suc n) i w = (if bit w i then i else ctz_scan n (Suc i) w)"

definition ctzll :: "u64 \<Rightarrow> int" where
  "ctzll w = int (ctz_scan 64 0 w)"

section \<open>Occupancy and king lookup (chess\_game\_dynamics.c)\<close>

definition compute_white_occ :: "bitboard_state_t \<Rightarrow> u64" where
  "compute_white_occ s =
     (white_pawns s OR white_knights s OR white_bishops s OR white_rooks s
      OR white_queens s OR white_kings s)"

definition compute_black_occ :: "bitboard_state_t \<Rightarrow> u64" where
  "compute_black_occ s =
     (black_pawns s OR black_knights s OR black_bishops s OR black_rooks s
      OR black_queens s OR black_kings s)"

definition compute_all_occ :: "bitboard_state_t \<Rightarrow> u64" where
  "compute_all_occ s = (compute_white_occ s OR compute_black_occ s)"

definition get_king_position :: "bitboard_state_t \<Rightarrow> int \<Rightarrow> int" where
  "get_king_position state player =
     (let king_bb = (if player = 1 then white_kings state else black_kings state)
      in if king_bb = 0 then -1 else ctzll king_bb)"

definition remove_piece_from_bitboards :: "bitboard_state_t \<Rightarrow> int \<Rightarrow> int \<Rightarrow> bitboard_state_t" where
  "remove_piece_from_bitboards tempState from_square player =
     (let mask = sq_mask from_square in
      if player = 1 then
        (if white_pawns tempState AND mask \<noteq> 0
           then tempState\<lparr>white_pawns := white_pawns tempState AND NOT mask\<rparr>
         else if white_knights tempState AND mask \<noteq> 0
           then tempState\<lparr>white_knights := white_knights tempState AND NOT mask\<rparr>
         else if white_bishops tempState AND mask \<noteq> 0
           then tempState\<lparr>white_bishops := white_bishops tempState AND NOT mask\<rparr>
         else if white_rooks tempState AND mask \<noteq> 0
           then tempState\<lparr>white_rooks := white_rooks tempState AND NOT mask\<rparr>
         else if white_queens tempState AND mask \<noteq> 0
           then tempState\<lparr>white_queens := white_queens tempState AND NOT mask\<rparr>
         else if white_kings tempState AND mask \<noteq> 0
           then tempState\<lparr>white_kings := white_kings tempState AND NOT mask\<rparr>
         else tempState)
      else
        (if black_pawns tempState AND mask \<noteq> 0
           then tempState\<lparr>black_pawns := black_pawns tempState AND NOT mask\<rparr>
         else if black_knights tempState AND mask \<noteq> 0
           then tempState\<lparr>black_knights := black_knights tempState AND NOT mask\<rparr>
         else if black_bishops tempState AND mask \<noteq> 0
           then tempState\<lparr>black_bishops := black_bishops tempState AND NOT mask\<rparr>
         else if black_rooks tempState AND mask \<noteq> 0
           then tempState\<lparr>black_rooks := black_rooks tempState AND NOT mask\<rparr>
         else if black_queens tempState AND mask \<noteq> 0
           then tempState\<lparr>black_queens := black_queens tempState AND NOT mask\<rparr>
         else if black_kings tempState AND mask \<noteq> 0
           then tempState\<lparr>black_kings := black_kings tempState AND NOT mask\<rparr>
         else tempState))"

definition simulate_position_without_piece :: "bitboard_state_t \<Rightarrow> chess_move_t \<Rightarrow> bitboard_state_t" where
  "simulate_position_without_piece state move =
     remove_piece_from_bitboards state (uint (move_from move)) (current_player state)"

section \<open>Attack queries\<close>

definition is_attacked_by_pawn :: "bitboard_state_t \<Rightarrow> int \<Rightarrow> int \<Rightarrow> bool" where
  "is_attacked_by_pawn state square attacker_player =
     (let attacker_pawns = (if attacker_player = 1 then white_pawns state else black_pawns state);
          mask = sq_mask square
      in if attacker_player = 1 then
           (if (push_bit 7 mask AND attacker_pawns AND NOT_H_FILE) \<noteq> 0 then True
            else if (push_bit 9 mask AND attacker_pawns AND NOT_A_FILE) \<noteq> 0 then True
            else False)
         else
           (if (drop_bit 7 mask AND attacker_pawns AND NOT_A_FILE) \<noteq> 0 then True
            else if (drop_bit 9 mask AND attacker_pawns AND NOT_H_FILE) \<noteq> 0 then True
            else False))"

definition knight_from_positions :: "u64 \<Rightarrow> u64" where
  "knight_from_positions m =
     (let k0 = (0 :: u64);
          k1 = (if push_bit 6 m AND NOT_GH_FILE \<noteq> 0 then k0 OR push_bit 6 m else k0);
          k2 = (if drop_bit 10 m AND NOT_GH_FILE \<noteq> 0 then k1 OR drop_bit 10 m else k1);
          k3 = (if push_bit 10 m AND NOT_AB_FILE \<noteq> 0 then k2 OR push_bit 10 m else k2);
          k4 = (if drop_bit 6 m AND NOT_AB_FILE \<noteq> 0 then k3 OR drop_bit 6 m else k3);
          k5 = (if push_bit 15 m AND NOT_H_FILE \<noteq> 0 then k4 OR push_bit 15 m else k4);
          k6 = (if drop_bit 17 m AND NOT_H_FILE \<noteq> 0 then k5 OR drop_bit 17 m else k5);
          k7 = (if push_bit 17 m AND NOT_A_FILE \<noteq> 0 then k6 OR push_bit 17 m else k6);
          k8 = (if drop_bit 15 m AND NOT_A_FILE \<noteq> 0 then k7 OR drop_bit 15 m else k7)
      in k8)"

definition is_attacked_by_knight :: "bitboard_state_t \<Rightarrow> int \<Rightarrow> int \<Rightarrow> bool" where
  "is_attacked_by_knight state square attacker_player =
     (let attacker_knights = (if attacker_player = 1 then white_knights state else black_knights state)
      in knight_from_positions (sq_mask square) AND attacker_knights \<noteq> 0)"

text \<open>
  The wrap test of \<^verbatim>\<open>ray_moves\<close>: after a step the row and column differences must be
  those of the direction; any other \<open>delta\<close> is not tested.
\<close>

definition ray_wraps :: "int \<Rightarrow> int \<Rightarrow> int \<Rightarrow> bool" where
  "ray_wraps delta row_diff col_diff =
     ((delta = 1 \<and> (row_diff \<noteq> 0 \<or> col_diff \<noteq> 1)) \<or>
      (delta = -1 \<and> (row_diff \<noteq> 0 \<or> col_diff \<noteq> -1)) \<or>
      (delta = 8 \<and> (row_diff \<noteq> 1 \<or> col_diff \<noteq> 0)) \<or>
      (delta = -8 \<and> (row_diff \<noteq> -1 \<or> col_diff \<noteq> 0)) \<or>
      (delta = 7 \<and> (row_diff \<noteq> 1 \<or> col_diff \<noteq> -1)) \<or>
      (delta = -7 \<and> (row_diff \<noteq> -1 \<or> col_diff \<noteq> 1)) \<or>
      (delta = 9 \<and> (row_diff \<noteq> 1 \<or> col_diff \<noteq> 1)) \<or>
      (delta = -9 \<and> (row_diff \<noteq> -1 \<or> col_diff \<noteq> -1)))"

text \<open>
  The \<^verbatim>\<open>while (true)\<close> loop of \<^verbatim>\<open>ray_moves\<close>.  Every caller passes one of the eight
  deltas \<open>\<plusminus>1, \<plusminus>7, \<plusminus>8, \<plusminus>9\<close>; with \<open>delta = 0\<close> the C loop would spin on an empty
  square, so the model stops there at once.  Positions stay in \<open>0..63\<close>, where C's
  truncating \<^verbatim>\<open>/\<close> and \<^verbatim>\<open>%\<close> agree with \<open>div\<close> and \<open>mod\<close>.
\<close>

function ray_loop :: "int \<Rightarrow> u64 \<Rightarrow> int \<Rightarrow> u64 \<Rightarrow> u64" where
  "ray_loop delta occupancy current_pos result =
     (let new_pos = current_pos + delta in
      if delta = 0 then result
      else if new_pos < 0 \<or> new_pos > 63 then result
      else if ray_wraps delta (new_pos div 8 - current_pos div 8) (new_pos mod 8 - current_pos mod 8)
        then result
      else
        (let new_bit = sq_mask new_pos; result' = result OR new_bit
         in if new_bit AND occupancy \<noteq> 0 then result'
            else ray_loop delta occupancy new_pos result'))"
  by pat_completeness auto
termination
  by (relation "measure (\<lambda>(delta, occ, pos, r). nat (if delta > 0 then 64 - pos else pos + 1))") auto

definition ray_moves :: "u64 \<Rightarrow> int \<Rightarrow> u64 \<Rightarrow> u64" where
  "ray_moves starting_bit delta occupancy = ray_loop delta occupancy (ctzll starting_bit) 0"

definition is_attacked_by_bishop_or_queen :: "bitboard_state_t \<Rightarrow> int \<Rightarrow> int \<Rightarrow> bool" where
  "is_attacked_by_bishop_or_queen state square attacker_player =
     (let sq = sq_mask square;
          attacker_bishops = (if attacker_player = 1 then white_bishops state else black_bishops state);
          attacker_queens = (if attacker_player = 1 then white_queens state else black_queens state);
          occupancy = compute_all_occ state;
          diag_up_right = ray_moves sq 9 occupancy;
          diag_up_left = ray_moves sq 7 occupancy;
          diag_dn_right = ray_moves sq (-7) occupancy;
          diag_dn_left = ray_moves sq (-9) occupancy
      in if diag_up_right AND (attacker_bishops OR attacker_queens) \<noteq> 0 then True
         else if diag_up_left AND (attacker_bishops OR attacker_queens) \<noteq> 0 then True
         else if diag_dn_right AND (attacker_bishops OR attacker_queens) \<noteq> 0 then True
         else if diag_dn_left AND (attacker_bishops OR attacker_queens) \<noteq> 0 then True
         else False)"

definition is_attacked_by_rook_or_queen :: "bitboard_state_t \<Rightarrow> int \<Rightarrow> int \<Rightarrow> bool" where
  "is_attacked_by_rook_or_queen state square attacker_player =
     (let sq = sq_mask square;
          attacker_rooks = (if attacker_player = 1 then white_rooks state else black_rooks state);
          attacker_queens = (if attacker_player = 1 then white_queens state else black_queens state);
          occupancy = compute_all_occ state;
          up_moves = ray_moves sq 8 occupancy;
          down_moves = ray_moves sq (-8) occupancy;
          right_moves = ray_moves sq 1 occupancy;
          left_moves = ray_moves sq (-1) occupancy
      in if up_moves AND (attacker_rooks OR attacker_queens) \<noteq> 0 then True
         else if down_moves AND (attacker_rooks OR attacker_queens) \<noteq> 0 then True
         else if right_moves AND (attacker_rooks OR attacker_queens) \<noteq> 0 then True
         else if left_moves AND (attacker_rooks OR attacker_queens) \<noteq> 0 then True
         else False)"

definition is_attacked_by_king :: "bitboard_state_t \<Rightarrow> int \<Rightarrow> int \<Rightarrow> bool" where
  "is_attacked_by_king state square attacker_player =
     (let attacker_king = (if attacker_player = 1 then white_kings state else black_kings state)
      in if attacker_king = 0 then False
         else
           (let k_pos = ctzll attacker_king;
                king_row = k_pos div 8; king_col = k_pos mod 8;
                sq_row = square div 8; sq_col = square mod 8
            in \<bar>king_row - sq_row\<bar> \<le> 1 \<and> \<bar>king_col - sq_col\<bar> \<le> 1))"

definition is_square_attacked :: "bitboard_state_t \<Rightarrow> int \<Rightarrow> int \<Rightarrow> bool" where
  "is_square_attacked state square attacker_player =
     (if is_attacked_by_pawn state square attacker_player then True
      else if is_attacked_by_knight state square attacker_player then True
      else if is_attacked_by_bishop_or_queen state square attacker_player then True
      else if is_attacked_by_rook_or_queen state square attacker_player then True
      else if is_attacked_by_king state square attacker_player then True
      else False)"

definition is_king_in_check :: "bitboard_state_t \<Rightarrow> int \<Rightarrow> bool" where
  "is_king_in_check state player =
     (let king_pos = get_king_position state player in
      if king_pos = -1 then False
      else
        (let attacker = - player in
         if is_attacked_by_pawn state king_pos attacker then True
         else if is_attacked_by_knight state king_pos attacker then True
         else if is_attacked_by_bishop_or_queen state king_pos attacker then True
         else if is_attacked_by_rook_or_queen state king_pos attacker then True
         else if is_attacked_by_king state king_pos attacker then True
         else False))"

definition is_move_pinned :: "bitboard_state_t \<Rightarrow> chess_move_t \<Rightarrow> bool" where
  "is_move_pinned state move =
     (let king_pos = get_king_position state (current_player state) in
      if king_pos = -1 then False
      else is_king_in_check (simulate_position_without_piece state move) (current_player state))"


section \<open>Applying a move\<close>

definition apply_castling :: "bitboard_state_t \<Rightarrow> chess_move_t \<Rightarrow> bitboard_state_t" where
  "apply_castling new_state move =
     (let from = uint (move_from move); to = uint (move_to move);
          from_mask = sq_mask from; to_mask = sq_mask to;
          is_white_king = (white_kings new_state AND from_mask \<noteq> 0);
          is_black_king = (black_kings new_state AND from_mask \<noteq> 0);
          rook_sq =
            (if is_white_king then
               (if from = 4 \<and> to = 6 then (7, 5)
                else if from = 4 \<and> to = 2 then (0, 3)
                else (-1, -1))
             else if is_black_king then
               (if from = 60 \<and> to = 62 then (63, 61)
                else if from = 60 \<and> to = 58 then (56, 59)
                else (-1, -1))
             else (-1, -1));
          rook_from = fst rook_sq; rook_to = snd rook_sq
      in
        if is_white_king then
          (let s1 = new_state\<lparr>white_kings := (white_kings new_state AND NOT from_mask) OR to_mask\<rparr>
           in if rook_from \<noteq> -1 \<and> rook_to \<noteq> -1
              then s1\<lparr>white_rooks := (white_rooks s1 AND NOT (sq_mask rook_from)) OR sq_mask rook_to\<rparr>
              else s1)
        else if is_black_king then
          (let s1 = new_state\<lparr>black_kings := (black_kings new_state AND NOT from_mask) OR to_mask\<rparr>
           in if rook_from \<noteq> -1 \<and> rook_to \<noteq> -1
              then s1\<lparr>black_rooks := (black_rooks s1 AND NOT (sq_mask rook_from)) OR sq_mask rook_to\<rparr>
              else s1)
        else new_state)"

definition apply_en_passant :: "bitboard_state_t \<Rightarrow> chess_move_t \<Rightarrow> bitboard_state_t" where
  "apply_en_passant new_state move =
     (let from_mask = sq_mask (uint (move_from move)); to_mask = sq_mask (uint (move_to move));
          is_white_pawn = (white_pawns new_state AND from_mask \<noteq> 0);
          is_black_pawn = (black_pawns new_state AND from_mask \<noteq> 0)
      in
        if \<not> is_white_pawn \<and> \<not> is_black_pawn then new_state
        else if is_white_pawn then
          (let s1 = new_state\<lparr>white_pawns := (white_pawns new_state AND NOT from_mask) OR to_mask\<rparr>;
               captured_mask = sq_mask (uint (move_to move) - 8)
           in s1\<lparr>black_pawns := black_pawns s1 AND NOT captured_mask\<rparr>)
        else
          (let s1 = new_state\<lparr>black_pawns := (black_pawns new_state AND NOT from_mask) OR to_mask\<rparr>;
               captured_mask = sq_mask (uint (move_to move) + 8)
           in s1\<lparr>white_pawns := white_pawns s1 AND NOT captured_mask\<rparr>))"

text \<open>
  \<^verbatim>\<open>apply_regular_move\<close> keeps a pointer \<^verbatim>\<open>piece_bb_to_update\<close> to the bitboard of the
  moving piece; the pointer is one of the twelve fields.
\<close>

datatype piece_bb = WP | WN | WB | WR | WQ | WK | BP | BN | BB | BR | BQ | BK

fun bb_get :: "piece_bb \<Rightarrow> bitboard_state_t \<Rightarrow> u64" where
  "bb_get WP s = white_pawns s"
| "bb_get WN s = white_knights s"
| "bb_get WB s = white_bishops s"
| "bb_get WR s = white_rooks s"
| "bb_get WQ s = white_queens s"
| "bb_get WK s = white_kings s"
| "bb_get BP s = black_pawns s"
| "bb_get BN s = black_knights s"
| "bb_get BB s = black_bishops s"
| "bb_get BR s = black_rooks s"
| "bb_get BQ s = black_queens s"
| "bb_get BK s = black_kings s"

fun bb_set :: "piece_bb \<Rightarrow> u64 \<Rightarrow> bitboard_state_t \<Rightarrow> bitboard_state_t" where
  "bb_set WP v s = s\<lparr>white_pawns := v\<rparr>"
| "bb_set WN v s = s\<lparr>white_knights := v\<rparr>"
| "bb_set WB v s = s\<lparr>white_bishops := v\<rparr>"
| "bb_set WR v s = s\<lparr>white_rooks := v\<rparr>"
| "bb_set WQ v s = s\<lparr>white_queens := v\<rparr>"
| "bb_set WK v s = s\<lparr>white_kings := v\<rparr>"
| "bb_set BP v s = s\<lparr>black_pawns := v\<rparr>"
| "bb_set BN v s = s\<lparr>black_knights := v\<rparr>"
| "bb_set BB v s = s\<lparr>black_bishops := v\<rparr>"
| "bb_set BR v s = s\<lparr>black_rooks := v\<rparr>"
| "bb_set BQ v s = s\<lparr>black_queens := v\<rparr>"
| "bb_set BK v s = s\<lparr>black_kings := v\<rparr>"

text \<open>Step 1 of \<^verbatim>\<open>apply_regular_move\<close>: the first bitboard, in the source's order, holding \<open>from\<close>.\<close>

definition moving_piece :: "bitboard_state_t \<Rightarrow> u64 \<Rightarrow> piece_bb option" where
  "moving_piece s from_mask =
     (if white_pawns s AND from_mask \<noteq> 0 then Some WP
      else if white_knights s AND from_mask \<noteq> 0 then Some WN
      else if white_bishops s AND from_mask \<noteq> 0 then Some WB
      else if white_rooks s AND from_mask \<noteq> 0 then Some WR
      else if white_queens s AND from_mask \<noteq> 0 then Some WQ
      else if white_kings s AND from_mask \<noteq> 0 then Some WK
      else if black_pawns s AND from_mask \<noteq> 0 then Some BP
      else if black_knights s AND from_mask \<noteq> 0 then Some BN
      else if black_bishops s AND from_mask \<noteq> 0 then Some BB
      else if black_rooks s AND from_mask \<noteq> 0 then Some BR
      else if black_queens s AND from_mask \<noteq> 0 then Some BQ
      else if black_kings s AND from_mask \<noteq> 0 then Some BK
      else None)"

definition piece_is_white :: "piece_bb \<Rightarrow> bool" where
  "piece_is_white pc = (pc \<in> {WP, WN, WB, WR, WQ, WK})"

text \<open>Step 3: the enemy bitboard holding \<open>to\<close>, if any, in the source's order.\<close>

definition captured_piece :: "bitboard_state_t \<Rightarrow> bool \<Rightarrow> u64 \<Rightarrow> piece_bb option" where
  "captured_piece s is_white to_mask =
     (if is_white then
        (if black_pawns s AND to_mask \<noteq> 0 then Some BP
         else if black_knights s AND to_mask \<noteq> 0 then Some BN
         else if black_bishops s AND to_mask \<noteq> 0 then Some BB
         else if black_rooks s AND to_mask \<noteq> 0 then Some BR
         else if black_queens s AND to_mask \<noteq> 0 then Some BQ
         else if black_kings s AND to_mask \<noteq> 0 then Some BK
         else None)
      else
        (if white_pawns s AND to_mask \<noteq> 0 then Some WP
         else if white_knights s AND to_mask \<noteq> 0 then Some WN
         else if white_bishops s AND to_mask \<noteq> 0 then Some WB
         else if white_rooks s AND to_mask \<noteq> 0 then Some WR
         else if white_queens s AND to_mask \<noteq> 0 then Some WQ
         else if white_kings s AND to_mask \<noteq> 0 then Some WK
         else None))"

definition apply_regular_move :: "bitboard_state_t \<Rightarrow> chess_move_t \<Rightarrow> bitboard_state_t \<times> bool" where
  "apply_regular_move new_state move =
     (let from_mask = sq_mask (uint (move_from move)); to_mask = sq_mask (uint (move_to move))
      in case moving_piece new_state from_mask of
           None \<Rightarrow> (new_state, False)
         | Some pc \<Rightarrow>
             (let was_pawn = (pc = WP \<or> pc = BP);
                  s1 = bb_set pc (bb_get pc new_state AND NOT from_mask) new_state;
                  cap = captured_piece s1 (piece_is_white pc) to_mask;
                  s2 = (case cap of None \<Rightarrow> s1
                        | Some c \<Rightarrow> bb_set c (bb_get c s1 AND NOT to_mask) s1);
                  s3 = bb_set pc (bb_get pc s2 OR to_mask) s2
              in (s3, was_pawn \<or> cap \<noteq> None)))"

definition handle_promotion :: "bitboard_state_t \<Rightarrow> chess_move_t \<Rightarrow> bitboard_state_t" where
  "handle_promotion new_state move =
     (let to_mask = sq_mask (uint (move_to move));
          is_white_pawn = (white_pawns new_state AND to_mask \<noteq> 0);
          is_black_pawn = (black_pawns new_state AND to_mask \<noteq> 0)
      in
        if \<not> is_white_pawn \<and> \<not> is_black_pawn then new_state
        else
          (let s1 = (if is_white_pawn
                     then new_state\<lparr>white_pawns := white_pawns new_state AND NOT to_mask\<rparr>
                     else new_state\<lparr>black_pawns := black_pawns new_state AND NOT to_mask\<rparr>)
           in
             if promotion move = 1 then
               (if is_white_pawn then s1\<lparr>white_knights := white_knights s1 OR to_mask\<rparr>
                else s1\<lparr>black_knights := black_knights s1 OR to_mask\<rparr>)
             else if promotion move = 2 then
               (if is_white_pawn then s1\<lparr>white_bishops := white_bishops s1 OR to_mask\<rparr>
                else s1\<lparr>black_bishops := black_bishops s1 OR to_mask\<rparr>)
             else if promotion move = 3 then
               (if is_white_pawn then s1\<lparr>white_rooks := white_rooks s1 OR to_mask\<rparr>
                else s1\<lparr>black_rooks := black_rooks s1 OR to_mask\<rparr>)
             else
               (if is_white_pawn then s1\<lparr>white_queens := white_queens s1 OR to_mask\<rparr>
                else s1\<lparr>black_queens := black_queens s1 OR to_mask\<rparr>)))"

text \<open>
  The three updaters read the position they are given, which in \<^verbatim>\<open>chess_apply_move\<close>
  is the position \<^emph>\<open>after\<close> the pieces have been moved.
\<close>

definition update_castling_rights :: "bitboard_state_t \<Rightarrow> chess_move_t \<Rightarrow> bitboard_state_t" where
  "update_castling_rights new_state move =
     (let from_mask = sq_mask (uint (move_from move)); to_mask = sq_mask (uint (move_to move));
          rights0 = castling_rights new_state;
          is_white_king = (white_kings new_state AND from_mask \<noteq> 0);
          is_black_king = (black_kings new_state AND from_mask \<noteq> 0);
          rights1 = (if is_white_king then rights0 AND NOT 0x3 else rights0);
          rights2 = (if is_black_king then rights1 AND NOT 0xC else rights1);
          is_white_rook_from = (white_rooks new_state AND from_mask \<noteq> 0);
          is_white_rook_to = (white_rooks new_state AND to_mask \<noteq> 0);
          is_black_rook_from = (black_rooks new_state AND from_mask \<noteq> 0);
          is_black_rook_to = (black_rooks new_state AND to_mask \<noteq> 0);
          rights3 = (if is_white_rook_from \<and> move_from move = 0 then rights2 AND NOT 0x2 else rights2);
          rights4 = (if is_white_rook_from \<and> move_from move = 7 then rights3 AND NOT 0x1 else rights3);
          rights5 = (if is_black_rook_from \<and> move_to move = 0 \<and> is_white_rook_to
                     then rights4 AND NOT 0x2 else rights4);
          rights6 = (if is_black_rook_from \<and> move_to move = 7 \<and> is_white_rook_to
                     then rights5 AND NOT 0x1 else rights5);
          rights7 = (if is_black_rook_from \<and> move_from move = 56 then rights6 AND NOT 0x8 else rights6);
          rights8 = (if is_black_rook_from \<and> move_from move = 63 then rights7 AND NOT 0x4 else rights7);
          rights9 = (if is_white_rook_from \<and> move_to move = 56 \<and> is_black_rook_to
                     then rights8 AND NOT 0x8 else rights8);
          rights10 = (if is_white_rook_from \<and> move_to move = 63 \<and> is_black_rook_to
                      then rights9 AND NOT 0x4 else rights9)
      in new_state\<lparr>castling_rights := rights10\<rparr>)"

definition update_en_passant :: "bitboard_state_t \<Rightarrow> chess_move_t \<Rightarrow> bitboard_state_t" where
  "update_en_passant new_state move =
     (let s0 = new_state\<lparr>en_passant := 255\<rparr>;
          from_mask = sq_mask (uint (move_from move));
          is_white_pawn = (white_pawns s0 AND from_mask \<noteq> 0);
          is_black_pawn = (black_pawns s0 AND from_mask \<noteq> 0)
      in
        if \<not> is_white_pawn \<and> \<not> is_black_pawn then s0
        else
          (let diff = uint (move_to move) - uint (move_from move) in
           if is_white_pawn \<and> diff = 16
             then s0\<lparr>en_passant := word_of_int (uint (move_from move) + 8)\<rparr>
           else if is_black_pawn \<and> diff = -16
             then s0\<lparr>en_passant := word_of_int (uint (move_from move) - 8)\<rparr>
           else s0\<lparr>en_passant := 255\<rparr>))"

definition update_move_counters :: "bitboard_state_t \<Rightarrow> bool \<Rightarrow> bitboard_state_t" where
  "update_move_counters new_state was_capture_or_pawn_move =
     (let s1 = (if was_capture_or_pawn_move
                then new_state\<lparr>halfmove_clock := 0\<rparr>
                else new_state\<lparr>halfmove_clock := halfmove_clock new_state + 1\<rparr>)
      in if current_player s1 = -1
         then s1\<lparr>fullmove_number := fullmove_number s1 + 1\<rparr>
         else s1)"

text \<open>
  \<^verbatim>\<open>get_castling_squares\<close> fills \<^verbatim>\<open>squares[3]\<close> and returns how many entries are
  valid; the model returns exactly those entries, so the count is the length.
\<close>

definition get_castling_squares :: "int \<Rightarrow> int \<Rightarrow> int list" where
  "get_castling_squares from to =
     (if from = 4 \<and> to = 6 then [5]
      else if from = 4 \<and> to = 2 then [1, 3]
      else if from = 60 \<and> to = 62 then [61]
      else if from = 60 \<and> to = 58 then [57, 59]
      else [])"

definition is_legal_castle :: "bitboard_state_t \<Rightarrow> chess_move_t \<Rightarrow> bool" where
  "is_legal_castle temp_state ch_move =
     (let from = uint (move_from ch_move); to = uint (move_to ch_move);
          cur = current_player temp_state; attacker = - cur
      in
        if is_king_in_check temp_state cur then False
        else
          (let squares = get_castling_squares from to in
           if length squares = 0 then False
           else \<not> list_ex (\<lambda>sq. is_square_attacked temp_state sq attacker) squares))"

text \<open>
  Step 4 of \<^verbatim>\<open>chess_apply_move\<close>: the dispatch on the kind of move, applied to the
  copy of the old position.  The result is the position with the pieces moved and the
  flag \<^verbatim>\<open>was_capture_or_pawn_move\<close>; \<open>None\<close> is the early \<^verbatim>\<open>return NULL\<close> of a
  castle that \<^verbatim>\<open>is_legal_castle\<close> refuses.
\<close>

definition apply_move_step :: "bitboard_state_t \<Rightarrow> chess_move_t \<Rightarrow> (bitboard_state_t \<times> bool) option" where
  "apply_move_step new_state ch_move =
     (if is_castling ch_move \<noteq> 0 then
        (if \<not> is_legal_castle new_state ch_move then None
         else Some (apply_castling new_state ch_move, False))
      else if is_en_passant ch_move \<noteq> 0 then
        Some (apply_en_passant new_state ch_move, True)
      else if promotion ch_move \<noteq> 0 then
        Some (handle_promotion (fst (apply_regular_move new_state ch_move)) ch_move, True)
      else Some (apply_regular_move new_state ch_move))"

text \<open>
  \<^verbatim>\<open>chess_apply_move\<close>: \<open>None\<close> is the \<^verbatim>\<open>NULL\<close> the source returns for a rejected
  move.  Both pointer arguments are taken to be non-null.
\<close>

definition chess_apply_move :: "bitboard_state_t \<Rightarrow> chess_move_t \<Rightarrow> bitboard_state_t option" where
  "chess_apply_move old_state ch_move =
     (if is_move_pinned old_state ch_move then None
      else
        (let opp_king_bb = (if current_player old_state = 1
                            then black_kings old_state else white_kings old_state);
             to_mask = sq_mask (uint (move_to ch_move))
         in
           if opp_king_bb AND to_mask \<noteq> 0 then None
           else
             (case apply_move_step old_state ch_move of
                None \<Rightarrow> None
              | Some (moved, was_capture_or_pawn_move) \<Rightarrow>
                  (let s1 = update_castling_rights moved ch_move;
                       s2 = update_en_passant s1 ch_move;
                       s3 = update_move_counters s2 was_capture_or_pawn_move;
                       new_state = s3\<lparr>current_player := - (current_player old_state)\<rparr>
                   in if is_king_in_check new_state (- (current_player new_state)) then None
                      else Some new_state))))"

section \<open>Initial position (chess\_state.c)\<close>

definition initialize_board :: bitboard_state_t where
  "initialize_board =
     \<lparr> white_pawns = 0x000000000000FF00, white_knights = 0x0000000000000042,
       white_bishops = 0x0000000000000024, white_rooks = 0x0000000000000081,
       white_queens = 0x0000000000000008, white_kings = 0x0000000000000010,
       black_pawns = 0x00FF000000000000, black_knights = 0x4200000000000000,
       black_bishops = 0x2400000000000000, black_rooks = 0x8100000000000000,
       black_queens = 0x0800000000000000, black_kings = 0x1000000000000000,
       castling_rights = 0xF, en_passant = 255, halfmove_clock = 0, fullmove_number = 1,
       current_player = 1 \<rparr>"

definition chess_copy_state :: "bitboard_state_t \<Rightarrow> bitboard_state_t" where
  "chess_copy_state state = state"


section \<open>Move generation (chess\_moves*.c)\<close>

text \<open>
  The move vector (\<^verbatim>\<open>dynamic_vector_t\<close> of \<^verbatim>\<open>chess_move_t*\<close>) is a list in insertion
  order; \<^verbatim>\<open>add_move\<close> appends.  Its \<^verbatim>\<open>int\<close> arguments are converted to
  \<^verbatim>\<open>uint8_t\<close>.
\<close>

definition add_move :: "chess_move_t list \<Rightarrow> int \<Rightarrow> int \<Rightarrow> u8 \<Rightarrow> u8 \<Rightarrow> u8 \<Rightarrow> chess_move_t list" where
  "add_move moves from to promo castling ep =
     moves @ [\<lparr> move_from = word_of_int from, move_to = word_of_int to, promotion = promo,
                is_castling = castling, is_en_passant = ep \<rparr>]"

text \<open>
  Every generator walks a bitboard with
  \<^verbatim>\<open>while (bb) { i = __builtin_ctzll(bb); bb &= bb - 1; ... }\<close>.
  \<open>bit_indices\<close> is the sequence of indices \<open>i\<close> such a loop visits.
\<close>

function bit_indices :: "u64 \<Rightarrow> int list" where
  "bit_indices bb = (if bb = 0 then [] else ctzll bb # bit_indices (bb AND (bb - 1)))"
  by pat_completeness auto
termination
proof (relation "measure unat")
  show "wf (measure (unat :: u64 \<Rightarrow> nat))" by simp
next
  fix bb :: u64
  assume nz: "bb \<noteq> 0"
  have "unat (bb AND (bb - 1)) \<le> unat (bb - 1)"
    using word_and_le1 [of bb "bb - 1"] by (simp add: word_le_nat_alt)
  moreover have "unat (bb - 1) = unat bb - 1"
    using nz by (rule unat_minus_one)
  moreover have "unat bb \<noteq> 0"
    using nz by (simp add: unat_eq_0)
  ultimately show "(bb AND (bb - 1), bb) \<in> measure unat"
    by simp
qed

text \<open>
  The direction table of \<^verbatim>\<open>explore_ray\<close> (\<open>(dc, dr)\<close> per shift); any other shift
  returns without generating anything.
\<close>

definition ray_dir :: "int \<Rightarrow> (int \<times> int) option" where
  "ray_dir shift =
     (if shift = 1 then Some (1, 0)
      else if shift = -1 then Some (-1, 0)
      else if shift = 8 then Some (0, 1)
      else if shift = -8 then Some (0, -1)
      else if shift = 7 then Some (1, 1)
      else if shift = 9 then Some (-1, 1)
      else if shift = -7 then Some (-1, -1)
      else if shift = -9 then Some (1, -1)
      else None)"

function explore_loop :: "int \<Rightarrow> int \<Rightarrow> int \<Rightarrow> int \<Rightarrow> u64 \<Rightarrow> u64 \<Rightarrow> chess_move_t list \<Rightarrow> chess_move_t list" where
  "explore_loop shift from col row own_occ opp_occ moves =
     (case ray_dir shift of
        None \<Rightarrow> moves
      | Some (dc, dr) \<Rightarrow>
          (let col' = col + dc; row' = row + dr in
           if col' < 0 \<or> col' > 7 \<or> row' < 0 \<or> row' > 7 then moves
           else
             (let to = row' * 8 + col'; to_bit = sq_mask to in
              if to_bit AND own_occ \<noteq> 0 then moves
              else if to_bit AND opp_occ \<noteq> 0 then add_move moves from to 0 0 0
              else explore_loop shift from col' row' own_occ opp_occ (add_move moves from to 0 0 0))))"
  by pat_completeness auto
termination
  by (relation "measure (\<lambda>(shift, from, col, row, own, opp, moves).
        case ray_dir shift of None \<Rightarrow> 0
        | Some (dc, dr) \<Rightarrow>
            nat (if dc > 0 then 8 - col else if dc < 0 then col + 1
                 else if dr > 0 then 8 - row else row + 1))")
     (auto simp: ray_dir_def split: if_splits)

text \<open>The \<^verbatim>\<open>block_mask\<close> argument of \<^verbatim>\<open>explore_ray\<close> is ignored by the source and dropped here.\<close>

definition explore_ray :: "int \<Rightarrow> int \<Rightarrow> u64 \<Rightarrow> u64 \<Rightarrow> chess_move_t list \<Rightarrow> chess_move_t list" where
  "explore_ray from shift own_occ opp_occ moves =
     explore_loop shift from (from mod 8) (from div 8) own_occ opp_occ moves"

text \<open>
  The pawn loops (single push, the two captures) differ only in the offset from \<open>to\<close>
  back to \<open>from\<close> and in the promotion rank: one body serves them all.
\<close>

definition pawn_target :: "int \<Rightarrow> int \<Rightarrow> chess_move_t list \<Rightarrow> int \<Rightarrow> chess_move_t list" where
  "pawn_target back promo_rank moves to =
     (let from = to + back in
      if to div 8 = promo_rank then
        add_move (add_move (add_move (add_move moves from to 1 0 0) from to 2 0 0) from to 3 0 0)
          from to 4 0 0
      else add_move moves from to 0 0 0)"

definition generate_white_pawn_moves :: "bitboard_state_t \<Rightarrow> chess_move_t list \<Rightarrow> chess_move_t list" where
  "generate_white_pawn_moves state moves =
     (let pawns = white_pawns state;
          occupied = compute_all_occ state;
          empty = NOT occupied;
          single_push = push_bit 8 pawns AND empty;
          m1 = foldl (pawn_target (-8) 7) moves (bit_indices single_push);
          initial_pawns = pawns AND 0x000000000000FF00;
          double_push = push_bit 8 (push_bit 8 initial_pawns AND empty) AND empty;
          m2 = foldl (\<lambda>ms to. add_move ms (to - 16) to 0 0 0) m1 (bit_indices double_push);
          captures_right = push_bit 9 pawns AND NOT 0x0101010101010101 AND compute_black_occ state;
          m3 = foldl (pawn_target (-9) 7) m2 (bit_indices captures_right);
          captures_left = push_bit 7 pawns AND NOT 0x8080808080808080 AND compute_black_occ state;
          m4 = foldl (pawn_target (-7) 7) m3 (bit_indices captures_left)
      in
        if en_passant state \<noteq> 255 then
          (let ep_square = uint (en_passant state);
               ep_bit = sq_mask ep_square;
               m5 = (if push_bit 9 pawns AND ep_bit \<noteq> 0 \<and> (ep_square - 9) div 8 = 4
                     then add_move m4 (ep_square - 9) ep_square 0 0 1 else m4);
               m6 = (if push_bit 7 pawns AND ep_bit \<noteq> 0 \<and> (ep_square - 7) div 8 = 4
                     then add_move m5 (ep_square - 7) ep_square 0 0 1 else m5)
           in m6)
        else m4)"

definition generate_black_pawn_moves :: "bitboard_state_t \<Rightarrow> chess_move_t list \<Rightarrow> chess_move_t list" where
  "generate_black_pawn_moves state moves =
     (let pawns = black_pawns state;
          occupied = compute_all_occ state;
          empty = NOT occupied;
          single_push = drop_bit 8 pawns AND empty;
          m1 = foldl (pawn_target 8 0) moves (bit_indices single_push);
          initial_pawns = pawns AND 0x00FF000000000000;
          double_push = drop_bit 8 (drop_bit 8 initial_pawns AND empty) AND empty;
          m2 = foldl (\<lambda>ms to. add_move ms (to + 16) to 0 0 0) m1 (bit_indices double_push);
          captures_right = drop_bit 7 pawns AND NOT 0x0101010101010101 AND compute_white_occ state;
          m3 = foldl (pawn_target 7 0) m2 (bit_indices captures_right);
          captures_left = drop_bit 9 pawns AND NOT 0x8080808080808080 AND compute_white_occ state;
          m4 = foldl (pawn_target 9 0) m3 (bit_indices captures_left)
      in
        if en_passant state \<noteq> 255 then
          (let ep_square = uint (en_passant state);
               ep_bit = sq_mask ep_square;
               m5 = (if drop_bit 7 pawns AND ep_bit \<noteq> 0 \<and> (ep_square + 7) div 8 = 3
                     then add_move m4 (ep_square + 7) ep_square 0 0 1 else m4);
               m6 = (if drop_bit 9 pawns AND ep_bit \<noteq> 0 \<and> (ep_square + 9) div 8 = 3
                     then add_move m5 (ep_square + 9) ep_square 0 0 1 else m5)
           in m6)
        else m4)"

definition knight_attacks :: "u64 \<Rightarrow> u64" where
  "knight_attacks knight_bit =
     (push_bit 17 (knight_bit AND NOT_H_FILE) OR push_bit 15 (knight_bit AND NOT_A_FILE)
      OR drop_bit 15 (knight_bit AND NOT_H_FILE) OR drop_bit 17 (knight_bit AND NOT_A_FILE)
      OR push_bit 10 (knight_bit AND NOT_HG_FILE) OR push_bit 6 (knight_bit AND NOT_AB_FILE)
      OR drop_bit 6 (knight_bit AND NOT_HG_FILE) OR drop_bit 10 (knight_bit AND NOT_AB_FILE))"

definition knight_moves_from :: "u64 \<Rightarrow> chess_move_t list \<Rightarrow> int \<Rightarrow> chess_move_t list" where
  "knight_moves_from own_occ moves from =
     (let attacks = knight_attacks (sq_mask from) AND NOT own_occ
      in foldl (\<lambda>ms to. add_move ms from to 0 0 0) moves (bit_indices attacks))"

definition generate_white_knight_moves :: "bitboard_state_t \<Rightarrow> chess_move_t list \<Rightarrow> chess_move_t list" where
  "generate_white_knight_moves state moves =
     foldl (knight_moves_from (compute_white_occ state)) moves (bit_indices (white_knights state))"

definition generate_black_knight_moves :: "bitboard_state_t \<Rightarrow> chess_move_t list \<Rightarrow> chess_move_t list" where
  "generate_black_knight_moves state moves =
     foldl (knight_moves_from (compute_black_occ state)) moves (bit_indices (black_knights state))"

definition bishop_moves_from :: "u64 \<Rightarrow> u64 \<Rightarrow> chess_move_t list \<Rightarrow> int \<Rightarrow> chess_move_t list" where
  "bishop_moves_from own_occ opp_occ moves from =
     explore_ray from (-7) own_occ opp_occ
       (explore_ray from (-9) own_occ opp_occ
         (explore_ray from 9 own_occ opp_occ
           (explore_ray from 7 own_occ opp_occ moves)))"

definition generate_white_bishop_moves :: "bitboard_state_t \<Rightarrow> chess_move_t list \<Rightarrow> chess_move_t list" where
  "generate_white_bishop_moves state moves =
     foldl (bishop_moves_from (compute_white_occ state) (compute_black_occ state)) moves
       (bit_indices (white_bishops state))"

definition generate_black_bishop_moves :: "bitboard_state_t \<Rightarrow> chess_move_t list \<Rightarrow> chess_move_t list" where
  "generate_black_bishop_moves state moves =
     foldl (bishop_moves_from (compute_black_occ state) (compute_white_occ state)) moves
       (bit_indices (black_bishops state))"

definition rook_moves_from :: "u64 \<Rightarrow> u64 \<Rightarrow> chess_move_t list \<Rightarrow> int \<Rightarrow> chess_move_t list" where
  "rook_moves_from own_occ opp_occ moves from =
     explore_ray from (-8) own_occ opp_occ
       (explore_ray from 8 own_occ opp_occ
         (explore_ray from (-1) own_occ opp_occ
           (explore_ray from 1 own_occ opp_occ moves)))"

definition generate_white_rook_moves :: "bitboard_state_t \<Rightarrow> chess_move_t list \<Rightarrow> chess_move_t list" where
  "generate_white_rook_moves state moves =
     foldl (rook_moves_from (compute_white_occ state) (compute_black_occ state)) moves
       (bit_indices (white_rooks state))"

definition generate_black_rook_moves :: "bitboard_state_t \<Rightarrow> chess_move_t list \<Rightarrow> chess_move_t list" where
  "generate_black_rook_moves state moves =
     foldl (rook_moves_from (compute_black_occ state) (compute_white_occ state)) moves
       (bit_indices (black_rooks state))"

definition queen_moves_from :: "u64 \<Rightarrow> u64 \<Rightarrow> chess_move_t list \<Rightarrow> int \<Rightarrow> chess_move_t list" where
  "queen_moves_from own_occ opp_occ moves from =
     explore_ray from (-8) own_occ opp_occ
       (explore_ray from 8 own_occ opp_occ
         (explore_ray from (-1) own_occ opp_occ
           (explore_ray from 1 own_occ opp_occ
             (explore_ray from (-9) own_occ opp_occ
               (explore_ray from (-7) own_occ opp_occ
                 (explore_ray from 9 own_occ opp_occ
                   (explore_ray from 7 own_occ opp_occ moves)))))))"

definition generate_white_queen_moves :: "bitboard_state_t \<Rightarrow> chess_move_t list \<Rightarrow> chess_move_t list" where
  "generate_white_queen_moves state moves =
     foldl (queen_moves_from (compute_white_occ state) (compute_black_occ state)) moves
       (bit_indices (white_queens state))"

definition generate_black_queen_moves :: "bitboard_state_t \<Rightarrow> chess_move_t list \<Rightarrow> chess_move_t list" where
  "generate_black_queen_moves state moves =
     foldl (queen_moves_from (compute_black_occ state) (compute_white_occ state)) moves
       (bit_indices (black_queens state))"

text \<open>One king step: taken when the board edge allows it and the target holds no own piece.\<close>

definition king_step :: "u64 \<Rightarrow> int \<Rightarrow> bool \<Rightarrow> int \<Rightarrow> chess_move_t list \<Rightarrow> chess_move_t list" where
  "king_step own_occ from on_board to moves =
     (if on_board \<and> sq_mask to AND own_occ = 0 then add_move moves from to 0 0 0 else moves)"

definition king_steps :: "u64 \<Rightarrow> chess_move_t list \<Rightarrow> int \<Rightarrow> chess_move_t list" where
  "king_steps own_occ moves from =
     (let from_file = from mod 8; from_rank = from div 8;
          m1 = king_step own_occ from (from_rank < 7) (from + 8) moves;
          m2 = king_step own_occ from (from_rank > 0) (from - 8) m1;
          m3 = king_step own_occ from (from_file < 7) (from + 1) m2;
          m4 = king_step own_occ from (from_file > 0) (from - 1) m3;
          m5 = king_step own_occ from (from_file < 7 \<and> from_rank < 7) (from + 9) m4;
          m6 = king_step own_occ from (from_file > 0 \<and> from_rank < 7) (from + 7) m5;
          m7 = king_step own_occ from (from_file < 7 \<and> from_rank > 0) (from - 7) m6;
          m8 = king_step own_occ from (from_file > 0 \<and> from_rank > 0) (from - 9) m7
      in m8)"

definition MASK_WHITE_SHORT_CASTLING :: u64 where
  "MASK_WHITE_SHORT_CASTLING = (push_bit 5 1 OR push_bit 6 1)"
definition MASK_WHITE_LONG_CASTLING :: u64 where
  "MASK_WHITE_LONG_CASTLING = (push_bit 3 1 OR push_bit 2 1 OR push_bit 1 1)"
definition MASK_BLACK_SHORT_CASTLING :: u64 where
  "MASK_BLACK_SHORT_CASTLING = (push_bit 61 1 OR push_bit 62 1)"
definition MASK_BLACK_LONG_CASTLING :: u64 where
  "MASK_BLACK_LONG_CASTLING = (push_bit 59 1 OR push_bit 58 1 OR push_bit 57 1)"

definition white_king_moves_from :: "bitboard_state_t \<Rightarrow> chess_move_t list \<Rightarrow> int \<Rightarrow> chess_move_t list" where
  "white_king_moves_from state moves from =
     (let occupied = compute_all_occ state;
          m8 = king_steps (compute_white_occ state) moves from
      in
        if from = 4 then
          (let m9 = (if castling_rights state AND 0x1 \<noteq> 0 \<and> occupied AND MASK_WHITE_SHORT_CASTLING = 0
                     then add_move m8 from (from + 2) 0 1 0 else m8);
               m10 = (if castling_rights state AND 0x2 \<noteq> 0 \<and> occupied AND MASK_WHITE_LONG_CASTLING = 0
                      then add_move m9 from (from - 2) 0 1 0 else m9)
           in m10)
        else m8)"

definition black_king_moves_from :: "bitboard_state_t \<Rightarrow> chess_move_t list \<Rightarrow> int \<Rightarrow> chess_move_t list" where
  "black_king_moves_from state moves from =
     (let occupied = compute_all_occ state;
          m8 = king_steps (compute_black_occ state) moves from
      in
        if from = 60 then
          (let m9 = (if castling_rights state AND 0x4 \<noteq> 0 \<and> occupied AND MASK_BLACK_SHORT_CASTLING = 0
                     then add_move m8 from (from + 2) 0 1 0 else m8);
               m10 = (if castling_rights state AND 0x8 \<noteq> 0 \<and> occupied AND MASK_BLACK_LONG_CASTLING = 0
                      then add_move m9 from (from - 2) 0 1 0 else m9)
           in m10)
        else m8)"

definition generate_white_king_moves :: "bitboard_state_t \<Rightarrow> chess_move_t list \<Rightarrow> chess_move_t list" where
  "generate_white_king_moves state moves =
     foldl (white_king_moves_from state) moves (bit_indices (white_kings state))"

definition generate_black_king_moves :: "bitboard_state_t \<Rightarrow> chess_move_t list \<Rightarrow> chess_move_t list" where
  "generate_black_king_moves state moves =
     foldl (black_king_moves_from state) moves (bit_indices (black_kings state))"

definition chess_get_moves :: "bitboard_state_t \<Rightarrow> chess_move_t list" where
  "chess_get_moves state =
     (if current_player state = 1 then
        generate_white_king_moves state
          (generate_white_queen_moves state
            (generate_white_rook_moves state
              (generate_white_bishop_moves state
                (generate_white_knight_moves state
                  (generate_white_pawn_moves state [])))))
      else
        generate_black_king_moves state
          (generate_black_queen_moves state
            (generate_black_rook_moves state
              (generate_black_bishop_moves state
                (generate_black_knight_moves state
                  (generate_black_pawn_moves state []))))))"

definition chess_get_num_moves :: "chess_move_t list \<Rightarrow> int" where
  "chess_get_num_moves moves_vec = int (length moves_vec)"

section \<open>Zobrist hashing (chess\_hash.c)\<close>

text \<open>
  The module keeps its key tables, the initialisation flag and the generator state in
  static variables; they are gathered in one record.  The C arrays are functions of their
  index (every index the hash computes is in range: a piece number below 12, a bit index
  of a non-zero 64-bit word, a 4-bit castling mask, an en-passant square below 64).
\<close>

record zobrist_keys_t =
  piece_keys :: "nat \<Rightarrow> nat \<Rightarrow> u64"
  castling_keys :: "nat \<Rightarrow> u64"
  en_passant_keys :: "nat \<Rightarrow> u64"
  side_to_move_key :: u64

record zobrist_module =
  zobrist_keys :: zobrist_keys_t
  zobrist_initialized :: bool
  prng_state :: u64

definition zobrist_module_start :: zobrist_module where
  "zobrist_module_start =
     \<lparr> zobrist_keys = \<lparr> piece_keys = (\<lambda>piece square. 0), castling_keys = (\<lambda>i. 0),
                         en_passant_keys = (\<lambda>i. 0), side_to_move_key = 0 \<rparr>,
       zobrist_initialized = False,
       prng_state = 88172645463325252 \<rparr>"

text \<open>One step of \<^verbatim>\<open>next_rand64\<close> (xorshift64): the new generator state, which is also the value returned.\<close>

definition next_rand64 :: "u64 \<Rightarrow> u64" where
  "next_rand64 s0 =
     (let s1 = s0 XOR push_bit 13 s0;
          s2 = s1 XOR drop_bit 7 s1;
          s3 = s2 XOR push_bit 17 s2
      in s3)"

text \<open>
  \<^verbatim>\<open>chess_hash_init\<close>, with the value of \<^verbatim>\<open>time(NULL)\<close> as a parameter.  The loops draw
  the keys in sequence: the key of \<open>(piece, square)\<close> is output number
  \<open>piece * 64 + square + 1\<close>, the 16 castling keys follow, then the 64 en-passant keys,
  then the side-to-move key (output 849).
\<close>

definition chess_hash_init :: "u64 \<Rightarrow> zobrist_module \<Rightarrow> zobrist_module" where
  "chess_hash_init time_now z =
     (if zobrist_initialized z then z
      else
        (let seed = prng_state z XOR time_now;
             out = (\<lambda>n. (next_rand64 ^^ n) seed)
         in \<lparr> zobrist_keys =
                \<lparr> piece_keys = (\<lambda>piece square. out (piece * 64 + square + 1)),
                  castling_keys = (\<lambda>i. out (768 + i + 1)),
                  en_passant_keys = (\<lambda>i. out (784 + i + 1)),
                  side_to_move_key = out 849 \<rparr>,
              zobrist_initialized = True,
              prng_state = out 849 \<rparr>))"

definition hash_pieces :: "zobrist_keys_t \<Rightarrow> u64 list \<Rightarrow> u64" where
  "hash_pieces zk pieces =
     foldl (\<lambda>hash piece.
              foldl (\<lambda>h sq. h XOR piece_keys zk piece (nat sq)) hash (bit_indices (pieces ! piece)))
       0 [0 ..< 12]"

definition chess_hash_state :: "zobrist_module \<Rightarrow> bitboard_state_t \<Rightarrow> u64" where
  "chess_hash_state z state =
     (if \<not> zobrist_initialized z then 0
      else
        (let zk = zobrist_keys z;
             pieces = [white_pawns state, white_knights state, white_bishops state,
                       white_rooks state, white_queens state, white_kings state,
                       black_pawns state, black_knights state, black_bishops state,
                       black_rooks state, black_queens state, black_kings state];
             h1 = hash_pieces zk pieces;
             h2 = h1 XOR castling_keys zk (unat (castling_rights state AND 0xF));
             h3 = (if en_passant state < 64 then h2 XOR en_passant_keys zk (unat (en_passant state))
                   else h2);
             h4 = (if current_player state = -1 then h3 XOR side_to_move_key zk else h3)
         in h4))"

definition chess_equals_state :: "bitboard_state_t \<Rightarrow> bitboard_state_t \<Rightarrow> int" where
  "chess_equals_state stateA stateB =
     (if white_pawns stateA = white_pawns stateB \<and>
         white_knights stateA = white_knights stateB \<and>
         white_bishops stateA = white_bishops stateB \<and>
         white_rooks stateA = white_rooks stateB \<and>
         white_queens stateA = white_queens stateB \<and>
         white_kings stateA = white_kings stateB \<and>
         black_pawns stateA = black_pawns stateB \<and>
         black_knights stateA = black_knights stateB \<and>
         black_bishops stateA = black_bishops stateB \<and>
         black_rooks stateA = black_rooks stateB \<and>
         black_queens stateA = black_queens stateB \<and>
         black_kings stateA = black_kings stateB \<and>
         castling_rights stateA = castling_rights stateB \<and>
         en_passant stateA = en_passant stateB \<and>
         halfmove_clock stateA = halfmove_clock stateB \<and>
         fullmove_number stateA = fullmove_number stateB \<and>
         current_player stateA = current_player stateB
      then 1 else 0)"

section \<open>Transposition table (obj\_cache.c)\<close>

text \<open>
  Keys and values are \<^verbatim>\<open>void*\<close>: addresses, with 0 for \<^verbatim>\<open>NULL\<close>.  A bucket is its
  collision chain, each \<^verbatim>\<open>hash_entry\<close> the pair of its key and value pointers.  The
  callbacks \<^verbatim>\<open>hash_cb\<close> and \<^verbatim>\<open>eq_cb\<close> dereference the key pointers they are given; the
  model hands the table functions the callbacks as they act on the memory of the moment,
  and a callback that reads an object no longer alive answers \<open>Use_After_Free\<close>.
\<close>

type_synonym ptr = nat

datatype mem_error = Use_After_Free

type_synonym chain = "(ptr \<times> ptr) list"

record generic_hash_table =
  buckets :: "nat \<Rightarrow> chain"
  capacity :: nat

definition INITIAL_CAPACITY :: nat where
  "INITIAL_CAPACITY = 1024"

definition cache_create :: generic_hash_table where
  "cache_create = \<lparr> buckets = (\<lambda>i. []), capacity = INITIAL_CAPACITY \<rparr>"

definition get_bucket_index :: "u64 \<Rightarrow> nat \<Rightarrow> nat" where
  "get_bucket_index hash cap = unat hash mod cap"

text \<open>The bucket walk of \<^verbatim>\<open>cache_lookup\<close>: the value pointer of the first entry whose key \<^verbatim>\<open>eq_cb\<close> accepts, else \<^verbatim>\<open>NULL\<close>.\<close>

fun lookup_walk :: "(ptr \<Rightarrow> ptr \<Rightarrow> mem_error + int) \<Rightarrow> ptr \<Rightarrow> chain \<Rightarrow> mem_error + ptr" where
  "lookup_walk eq_cb key [] = Inr 0"
| "lookup_walk eq_cb key ((k, v) # rest) =
     (case eq_cb k key of
        Inl e \<Rightarrow> Inl e
      | Inr r \<Rightarrow> if r \<noteq> 0 then Inr v else lookup_walk eq_cb key rest)"

definition cache_lookup ::
  "(ptr \<Rightarrow> mem_error + u64) \<Rightarrow> (ptr \<Rightarrow> ptr \<Rightarrow> mem_error + int) \<Rightarrow> generic_hash_table \<Rightarrow> ptr
     \<Rightarrow> mem_error + ptr" where
  "cache_lookup hash_cb eq_cb cache key =
     (if key = 0 then Inr 0
      else case hash_cb key of
             Inl e \<Rightarrow> Inl e
           | Inr h \<Rightarrow> lookup_walk eq_cb key (buckets cache (get_bucket_index h (capacity cache))))"

text \<open>
  The bucket walk of \<^verbatim>\<open>cache_store\<close>: when an entry with an equal key exists its value
  pointer is overwritten in place (\<open>Some\<close> of the new chain); \<open>None\<close> when no entry matched.
\<close>

fun store_walk :: "(ptr \<Rightarrow> ptr \<Rightarrow> mem_error + int) \<Rightarrow> ptr \<Rightarrow> ptr \<Rightarrow> chain \<Rightarrow> mem_error + chain option" where
  "store_walk eq_cb key val [] = Inr None"
| "store_walk eq_cb key val ((k, v) # rest) =
     (case eq_cb k key of
        Inl e \<Rightarrow> Inl e
      | Inr r \<Rightarrow>
          if r \<noteq> 0 then Inr (Some ((k, val) # rest))
          else (case store_walk eq_cb key val rest of
                  Inl e \<Rightarrow> Inl e
                | Inr None \<Rightarrow> Inr None
                | Inr (Some rest') \<Rightarrow> Inr (Some ((k, v) # rest'))))"

definition cache_store ::
  "(ptr \<Rightarrow> mem_error + u64) \<Rightarrow> (ptr \<Rightarrow> ptr \<Rightarrow> mem_error + int) \<Rightarrow> generic_hash_table \<Rightarrow> ptr \<Rightarrow> ptr
     \<Rightarrow> mem_error + generic_hash_table" where
  "cache_store hash_cb eq_cb cache key val =
     (if key = 0 then Inr cache
      else case hash_cb key of
             Inl e \<Rightarrow> Inl e
           | Inr h \<Rightarrow>
               (let index = get_bucket_index h (capacity cache) in
                case store_walk eq_cb key val (buckets cache index) of
                  Inl e \<Rightarrow> Inl e
                | Inr (Some chain') \<Rightarrow> Inr (cache\<lparr>buckets := (buckets cache)(index := chain')\<rparr>)
                | Inr None \<Rightarrow>
                    Inr (cache\<lparr>buckets := (buckets cache)(index := (key, val) # buckets cache index)\<rparr>)))"

section \<open>Search (minimax.c)\<close>

datatype NodeType = EXACT | LOWER_BOUND | UPPER_BOUND

record minimax_cache_entry_t =
  entry_value :: int
  entry_depth :: int
  entry_type :: NodeType

text \<open>
  The game descriptor, reduced to the callbacks that decide a search value; states and
  moves are values of the game, and \<^verbatim>\<open>apply_move\<close> answers \<open>None\<close> for \<^verbatim>\<open>NULL\<close>.
\<close>

record ('s, 'm) game_descriptor_t =
  get_moves :: "'s \<Rightarrow> 'm list"
  apply_move :: "'s \<Rightarrow> 'm \<Rightarrow> 's option"
  is_terminal :: "'s \<Rightarrow> int"
  evaluate :: "'s \<Rightarrow> int"
  player_to_move :: "'s \<Rightarrow> int"
  hash_state :: "'s \<Rightarrow> u64"
  equals_state :: "'s \<Rightarrow> 's \<Rightarrow> int"

text \<open>
  The memory the search works in.  Game states live on the heap (\<^verbatim>\<open>apply_move\<close>
  allocates, \<^verbatim>\<open>free_state\<close> releases); the \<^verbatim>\<open>entry\<close> variables of \<^verbatim>\<open>minimax_ab\<close> are
  automatic objects that die with their block.  An address maps to \<open>None\<close> once its
  object is gone, addresses are never handed out twice, and reading through a dead
  address is the error \<open>Use_After_Free\<close> (undefined behaviour in C).
\<close>

record 's world =
  state_heap :: "ptr \<Rightarrow> 's option"
  entry_heap :: "ptr \<Rightarrow> minimax_cache_entry_t option"
  next_ptr :: ptr
  table :: generic_hash_table

definition INT_MIN :: int where "INT_MIN = - 2147483648"
definition INT_MAX :: int where "INT_MAX = 2147483647"

definition hash_cb_of :: "('s, 'm) game_descriptor_t \<Rightarrow> 's world \<Rightarrow> ptr \<Rightarrow> mem_error + u64" where
  "hash_cb_of gd w key =
     (case state_heap w key of None \<Rightarrow> Inl Use_After_Free | Some s \<Rightarrow> Inr (hash_state gd s))"

definition eq_cb_of :: "('s, 'm) game_descriptor_t \<Rightarrow> 's world \<Rightarrow> ptr \<Rightarrow> ptr \<Rightarrow> mem_error + int" where
  "eq_cb_of gd w keyA keyB =
     (case state_heap w keyA of
        None \<Rightarrow> Inl Use_After_Free
      | Some a \<Rightarrow>
          (case state_heap w keyB of
             None \<Rightarrow> Inl Use_After_Free
           | Some b \<Rightarrow> Inr (equals_state gd a b)))"

text \<open>
  Step 1 of \<^verbatim>\<open>minimax_ab\<close>, the probe of the table: \<open>Inl v\<close> is the early
  \<^verbatim>\<open>return cached_val->value\<close>, \<open>Inr (alpha, beta)\<close> the window to go on with.
\<close>

definition probe_cache ::
  "('s, 'm) game_descriptor_t \<Rightarrow> 's world \<Rightarrow> ptr \<Rightarrow> int \<Rightarrow> int \<Rightarrow> int
     \<Rightarrow> mem_error + (int + int \<times> int)" where
  "probe_cache gd w state depth alpha beta =
     (case cache_lookup (hash_cb_of gd w) (eq_cb_of gd w) (table w) state of
        Inl e \<Rightarrow> Inl e
      | Inr cached_val \<Rightarrow>
          if cached_val = 0 then Inr (Inr (alpha, beta))
          else
            (case entry_heap w cached_val of
               None \<Rightarrow> Inl Use_After_Free
             | Some cv \<Rightarrow>
                 if entry_depth cv \<ge> depth then
                   (if entry_type cv = EXACT then Inr (Inl (entry_value cv))
                    else
                      (let alpha' = (if entry_type cv = LOWER_BOUND \<and> entry_value cv > alpha
                                     then entry_value cv else alpha);
                           beta' = (if entry_type cv = UPPER_BOUND \<and> entry_value cv < beta
                                    then entry_value cv else beta)
                       in if alpha' \<ge> beta' then Inr (Inl (entry_value cv))
                          else Inr (Inr (alpha', beta'))))
                 else Inr (Inr (alpha, beta))))"

text \<open>
  The block \<^verbatim>\<open>{ minimax_cache_entry_t entry; ...; cache_store(cache_handle, state, &entry); }\<close>:
  the entry gets an address, the table is given that address and the address of the
  state, and the entry dies when the block is left.
\<close>

definition store_entry ::
  "('s, 'm) game_descriptor_t \<Rightarrow> 's world \<Rightarrow> ptr \<Rightarrow> minimax_cache_entry_t \<Rightarrow> mem_error + 's world" where
  "store_entry gd w state entry =
     (let a = next_ptr w;
          w1 = w\<lparr>entry_heap := (entry_heap w)(a := Some entry), next_ptr := a + 1\<rparr>
      in case cache_store (hash_cb_of gd w1) (eq_cb_of gd w1) (table w1) state a of
           Inl e \<Rightarrow> Inl e
         | Inr t \<Rightarrow> Inr (w1\<lparr>table := t, entry_heap := (entry_heap w1)(a := None)\<rparr>))"

definition store_if_cache ::
  "('s, 'm) game_descriptor_t \<Rightarrow> bool \<Rightarrow> 's world \<Rightarrow> ptr \<Rightarrow> minimax_cache_entry_t \<Rightarrow> mem_error + 's world" where
  "store_if_cache gd use_cache w state entry =
     (if use_cache then store_entry gd w state entry else Inr w)"

definition node_type_of :: "int \<Rightarrow> int \<Rightarrow> int \<Rightarrow> NodeType" where
  "node_type_of best_value alpha_orig beta_orig =
     (if best_value \<le> alpha_orig then UPPER_BOUND
      else if best_value \<ge> beta_orig then LOWER_BOUND
      else EXACT)"

text \<open>
  \<^verbatim>\<open>minimax_ab\<close> and its loop over the moves.  \<open>use_cache\<close> says whether
  \<^verbatim>\<open>cache_handle\<close> is non-null; the table itself is in the world.  The depth is a natural
  number: the source tests \<^verbatim>\<open>depth == 0\<close> and recurses with \<^verbatim>\<open>depth - 1\<close>.  The result
  is the returned value with the memory as the call leaves it.
\<close>

fun minimax_ab ::
    "('s, 'm) game_descriptor_t \<Rightarrow> bool \<Rightarrow> nat \<Rightarrow> ptr \<Rightarrow> int \<Rightarrow> int \<Rightarrow> 's world
       \<Rightarrow> mem_error + int \<times> 's world"
  and moves_loop ::
    "('s, 'm) game_descriptor_t \<Rightarrow> bool \<Rightarrow> nat \<Rightarrow> 's \<Rightarrow> int \<Rightarrow> 'm list \<Rightarrow> int \<Rightarrow> int \<Rightarrow> int \<Rightarrow> 's world
       \<Rightarrow> mem_error + int \<times> 's world"
where
  "minimax_ab gd use_cache depth state alpha beta w =
     (case (if use_cache then probe_cache gd w state (int depth) alpha beta
            else Inr (Inr (alpha, beta))) of
        Inl e \<Rightarrow> Inl e
      | Inr (Inl cached) \<Rightarrow> Inr (cached, w)
      | Inr (Inr (alpha1, beta1)) \<Rightarrow>
          (case state_heap w state of
             None \<Rightarrow> Inl Use_After_Free
           | Some s \<Rightarrow>
               if is_terminal gd s \<noteq> 0 \<or> depth = 0 then
                 (case store_if_cache gd use_cache w state
                         \<lparr>entry_value = evaluate gd s, entry_depth = int depth, entry_type = EXACT\<rparr> of
                    Inl e \<Rightarrow> Inl e
                  | Inr w' \<Rightarrow> Inr (evaluate gd s, w'))
               else if length (get_moves gd s) = 0 then
                 (case store_if_cache gd use_cache w state
                         \<lparr>entry_value = evaluate gd s, entry_depth = int depth, entry_type = EXACT\<rparr> of
                    Inl e \<Rightarrow> Inl e
                  | Inr w' \<Rightarrow> Inr (evaluate gd s, w'))
               else
                 (let player = player_to_move gd s;
                      best0 = (if player = 1 then INT_MIN else INT_MAX)
                  in case moves_loop gd use_cache (depth - 1) s player (get_moves gd s)
                            best0 alpha1 beta1 w of
                       Inl e \<Rightarrow> Inl e
                     | Inr (best_value, w1) \<Rightarrow>
                         (case store_if_cache gd use_cache w1 state
                                 \<lparr>entry_value = best_value, entry_depth = int depth,
                                  entry_type = node_type_of best_value alpha beta\<rparr> of
                            Inl e \<Rightarrow> Inl e
                          | Inr w2 \<Rightarrow> Inr (best_value, w2)))))"
| "moves_loop gd use_cache child_depth s player [] best_value alpha beta w = Inr (best_value, w)"
| "moves_loop gd use_cache child_depth s player (move # rest) best_value alpha beta w =
     (case apply_move gd s move of
        None \<Rightarrow> moves_loop gd use_cache child_depth s player rest best_value alpha beta w
      | Some s' \<Rightarrow>
          (let new_state = next_ptr w;
               w1 = w\<lparr>state_heap := (state_heap w)(new_state := Some s'), next_ptr := new_state + 1\<rparr>
           in case minimax_ab gd use_cache child_depth new_state alpha beta w1 of
                Inl e \<Rightarrow> Inl e
              | Inr (v, w2) \<Rightarrow>
                  (let w3 = w2\<lparr>state_heap := (state_heap w2)(new_state := None)\<rparr>;
                       best' = (if player = 1 then (if v > best_value then v else best_value)
                                else (if v < best_value then v else best_value));
                       alpha' = (if player = 1 \<and> best' > alpha then best' else alpha);
                       beta' = (if player \<noteq> 1 \<and> best' < beta then best' else beta)
                   in if alpha' \<ge> beta' then Inr (best', w3)
                      else moves_loop gd use_cache child_depth s player rest best' alpha' beta' w3)))"

text \<open>The game of test\_minimax.c: a state is an \<^verbatim>\<open>int\<close>, a move adds 1 or 2.\<close>

definition fake_hash_state :: "int \<Rightarrow> u64" where
  "fake_hash_state s =
     (let val = (word_of_int s :: u64)
      in push_bit 3 val XOR drop_bit 2 val XOR 0xABCDEF)"

definition fake_gd :: "(int, int) game_descriptor_t" where
  "fake_gd =
     \<lparr> get_moves = (\<lambda>s. if s \<ge> 5 then [] else [1, 2]),
       apply_move = (\<lambda>s m. Some (s + m)),
       is_terminal = (\<lambda>s. if s \<ge> 10 then 1 else 0),
       evaluate = (\<lambda>s. s),
       player_to_move = (\<lambda>s. if s mod 2 = 0 then 1 else -1),
       hash_state = fake_hash_state,
       equals_state = (\<lambda>a b. if a = b then 1 else 0) \<rparr>"

text \<open>
  The memory at the start of a search: the root state at address 1 (allocated by the
  caller and alive throughout), a table fresh from \<^verbatim>\<open>cache_create\<close>.
\<close>

definition start_world :: "'s \<Rightarrow> 's world" where
  "start_world s0 =
     \<lparr> state_heap = (\<lambda>p. None)(1 := Some s0), entry_heap = (\<lambda>p. None), next_ptr = 2,
       table = cache_create \<rparr>"

definition search_value :: "mem_error + int \<times> 's world \<Rightarrow> mem_error + int" where
  "search_value r = (case r of Inl e \<Rightarrow> Inl e | Inr (v, w) \<Rightarrow> Inr v)"

text \<open>
  What a reader of the table sees for a key: the pointer \<^verbatim>\<open>cache_lookup\<close> returns,
  dereferenced in the entry memory of the moment (\<open>None\<close> when the lookup returns
  \<^verbatim>\<open>NULL\<close>).
\<close>

definition lookup_entry ::
  "(ptr \<Rightarrow> mem_error + u64) \<Rightarrow> (ptr \<Rightarrow> ptr \<Rightarrow> mem_error + int)
     \<Rightarrow> (ptr \<Rightarrow> minimax_cache_entry_t option) \<Rightarrow> generic_hash_table \<Rightarrow> ptr
     \<Rightarrow> mem_error + minimax_cache_entry_t option" where
  "lookup_entry hash_cb eq_cb entries cache key =
     (case cache_lookup hash_cb eq_cb cache key of
        Inl e \<Rightarrow> Inl e
      | Inr p \<Rightarrow>
          if p = 0 then Inr None
          else (case entries p of None \<Rightarrow> Inl Use_After_Free | Some e \<Rightarrow> Inr (Some e)))"

text \<open>
  A caller stores the entry object at address \<open>a\<close> under \<open>key\<close>; afterwards its entry
  memory is \<open>entries'\<close> (the object mutated, reused or gone); then the key is looked up.
\<close>

definition store_then_lookup ::
  "(ptr \<Rightarrow> mem_error + u64) \<Rightarrow> (ptr \<Rightarrow> ptr \<Rightarrow> mem_error + int) \<Rightarrow> generic_hash_table \<Rightarrow> ptr \<Rightarrow> ptr
     \<Rightarrow> (ptr \<Rightarrow> minimax_cache_entry_t option) \<Rightarrow> mem_error + minimax_cache_entry_t option" where
  "store_then_lookup hash_cb eq_cb cache key a entries' =
     (case cache_store hash_cb eq_cb cache key a of
        Inl e \<Rightarrow> Inl e
      | Inr cache' \<Rightarrow> lookup_entry hash_cb eq_cb entries' cache' key)"

text \<open>
  A store into an empty table: the key is the root state 0 of the test game at address 1,
  the entry object sits at address 2 and holds \<open>entry_at_store\<close> when stored.
\<close>

definition entry_at_store :: minimax_cache_entry_t where
  "entry_at_store = \<lparr>entry_value = 5, entry_depth = 3, entry_type = EXACT\<rparr>"

definition entry_mutated :: minimax_cache_entry_t where
  "entry_mutated = \<lparr>entry_value = 7, entry_depth = 0, entry_type = LOWER_BOUND\<rparr>"

text \<open>The caller's entry memory: nothing alive, or one object \<open>e\<close> alive at address \<open>a\<close>.\<close>

definition no_entries :: "ptr \<Rightarrow> minimax_cache_entry_t option" where
  "no_entries = (\<lambda>p. None)"

definition entry_at :: "ptr \<Rightarrow> minimax_cache_entry_t \<Rightarrow> ptr \<Rightarrow> minimax_cache_entry_t option" where
  "entry_at a e = no_entries(a := Some e)"

definition table_after_store :: generic_hash_table where
  "table_after_store = \<lparr> buckets = (\<lambda>i. [])(495 := [(1, 2)]), capacity = INITIAL_CAPACITY \<rparr>"

section \<open>Concrete positions and moves\<close>

text \<open>
  \<open>empty_board\<close> has no piece, no castling right, no en-passant square, clocks 0 and 1,
  White to move; the positions below are built from it.
\<close>

definition empty_board :: bitboard_state_t where
  "empty_board =
     \<lparr> white_pawns = 0, white_knights = 0, white_bishops = 0, white_rooks = 0,
       white_queens = 0, white_kings = 0,
       black_pawns = 0, black_knights = 0, black_bishops = 0, black_rooks = 0,
       black_queens = 0, black_kings = 0,
       castling_rights = 0, en_passant = 255, halfmove_clock = 0, fullmove_number = 1,
       current_player = 1 \<rparr>"

definition mk_move :: "u8 \<Rightarrow> u8 \<Rightarrow> chess_move_t" where
  "mk_move f t = \<lparr> move_from = f, move_to = t, promotion = 0, is_castling = 0, is_en_passant = 0 \<rparr>"

text \<open>The first test vector of test\_chess\_apply\_moves.c: b2-b3 from the initial position.\<close>

definition g_move1 :: chess_move_t where
  "g_move1 = \<lparr> move_from = 9, move_to = 17, promotion = 0, is_castling = 0, is_en_passant = 0 \<rparr>"

definition g_final_state1 :: bitboard_state_t where
  "g_final_state1 =
     \<lparr> white_pawns = 0x000000000002FD00, white_knights = 0x0000000000000042,
       white_bishops = 0x0000000000000024, white_rooks = 0x0000000000000081,
       white_queens = 0x0000000000000008, white_kings = 0x0000000000000010,
       black_pawns = 0x00FF000000000000, black_knights = 0x4200000000000000,
       black_bishops = 0x2400000000000000, black_rooks = 0x8100000000000000,
       black_queens = 0x0800000000000000, black_kings = 0x1000000000000000,
       castling_rights = 0xF, en_passant = 255, halfmove_clock = 0, fullmove_number = 1,
       current_player = -1 \<rparr>"

text \<open>The double push e2-e4 (12 to 28).\<close>

definition e2e4 :: chess_move_t where
  "e2e4 = mk_move 12 28"

text \<open>
  Kings on e1 and e8, rooks on all four corners, every castling right, White to move
  (FEN \<^verbatim>\<open>r3k2r/8/8/8/8/8/8/R3K2R w KQkq - 0 1\<close>).
\<close>

definition pos_rooks_kings :: bitboard_state_t where
  "pos_rooks_kings =
     empty_board\<lparr> white_kings := 0x10, white_rooks := 0x81,
                  black_kings := 0x1000000000000000, black_rooks := 0x8100000000000000,
                  castling_rights := 0xF \<rparr>"

text \<open>
  White pawn e4 (28), black pawn d5 (35), kings on e1 and e8, White to move
  (FEN \<^verbatim>\<open>4k3/8/8/3p4/4P3/8/8/4K3 w - - 0 1\<close>).
\<close>

definition pos_pawn_e4 :: bitboard_state_t where
  "pos_pawn_e4 =
     empty_board\<lparr> white_kings := 0x10, white_pawns := push_bit 28 1,
                  black_kings := 0x1000000000000000, black_pawns := push_bit 35 1 \<rparr>"

text \<open>
  White king e1 and rook a1 with the queenside right, black rook b8 and king h8, White to
  move (FEN \<^verbatim>\<open>1r5k/8/8/8/8/8/8/R3K3 w Q - 0 1\<close>).  The black rook attacks b1 down the
  open b-file and nothing else on the first rank.
\<close>

definition pos_b1_attacked :: bitboard_state_t where
  "pos_b1_attacked =
     empty_board\<lparr> white_kings := 0x10, white_rooks := 0x01,
                  black_kings := push_bit 63 1, black_rooks := push_bit 57 1,
                  castling_rights := 0x2 \<rparr>"

definition white_long_castle :: chess_move_t where
  "white_long_castle = \<lparr> move_from = 4, move_to = 2, promotion = 0, is_castling = 1, is_en_passant = 0 \<rparr>"

text \<open>
  Kings on e1 and e8, a black knight on b8, Black to move, both clocks at 255; below it
  the position after the knight has gone to c6 (57 to 42).
\<close>

definition pos_clock_255 :: bitboard_state_t where
  "pos_clock_255 =
     empty_board\<lparr> white_kings := 0x10, black_kings := 0x1000000000000000,
                  black_knights := push_bit 57 1,
                  halfmove_clock := 255, fullmove_number := 255, current_player := -1 \<rparr>"

definition pos_clock_255_after :: bitboard_state_t where
  "pos_clock_255_after =
     empty_board\<lparr> white_kings := 0x10, black_kings := 0x1000000000000000,
                  black_knights := push_bit 42 1,
                  halfmove_clock := 0, fullmove_number := 0, current_player := 1 \<rparr>"

text \<open>
  White king e1, black king e8 and a black pawn on d3 (19), White to move
  (FEN \<^verbatim>\<open>4k3/8/8/8/8/3p4/8/4K3 w - - 0 1\<close>); below it the position after the white
  king has stepped to e2 (4 to 12), a square the pawn on d3 captures on.
\<close>

definition pos_pawn_d3 :: bitboard_state_t where
  "pos_pawn_d3 =
     empty_board\<lparr> white_kings := 0x10, black_kings := 0x1000000000000000,
                  black_pawns := push_bit 19 1 \<rparr>"

definition pos_pawn_d3_after :: bitboard_state_t where
  "pos_pawn_d3_after =
     empty_board\<lparr> white_kings := push_bit 12 1, black_kings := 0x1000000000000000,
                  black_pawns := push_bit 19 1,
                  halfmove_clock := 1, current_player := -1 \<rparr>"

section \<open>Helper lemmas about move application\<close>

lemma or_and_zero: "(a OR b) AND (m::u64) = 0 \<longleftrightarrow> a AND m = 0 \<and> b AND m = 0"
  by (simp add: bit.conj_disj_distrib2 or_eq_0_iff)

lemma and_not_and_zero: "a AND (m::u64) = 0 \<Longrightarrow> (a AND NOT f) AND m = 0"
  by (metis and.assoc and.commute and_zero_eq)

lemma scalars_update_castling_rights:
  "halfmove_clock (update_castling_rights s m) = halfmove_clock s"
  "fullmove_number (update_castling_rights s m) = fullmove_number s"
  "current_player (update_castling_rights s m) = current_player s"
  by (simp_all add: update_castling_rights_def Let_def)

lemma scalars_update_en_passant:
  "halfmove_clock (update_en_passant s m) = halfmove_clock s"
  "fullmove_number (update_en_passant s m) = fullmove_number s"
  "current_player (update_en_passant s m) = current_player s"
  by (simp_all add: update_en_passant_def Let_def)

lemma scalars_bb_set:
  "halfmove_clock (bb_set pc v s) = halfmove_clock s"
  "fullmove_number (bb_set pc v s) = fullmove_number s"
  "current_player (bb_set pc v s) = current_player s"
  by (cases pc; simp)+

lemma scalars_apply_castling:
  "halfmove_clock (apply_castling s m) = halfmove_clock s"
  "fullmove_number (apply_castling s m) = fullmove_number s"
  "current_player (apply_castling s m) = current_player s"
  by (simp_all add: apply_castling_def Let_def)

lemma scalars_apply_en_passant:
  "halfmove_clock (apply_en_passant s m) = halfmove_clock s"
  "fullmove_number (apply_en_passant s m) = fullmove_number s"
  "current_player (apply_en_passant s m) = current_player s"
  by (simp_all add: apply_en_passant_def Let_def)

lemma scalars_handle_promotion:
  "halfmove_clock (handle_promotion s m) = halfmove_clock s"
  "fullmove_number (handle_promotion s m) = fullmove_number s"
  "current_player (handle_promotion s m) = current_player s"
  by (simp_all add: handle_promotion_def Let_def)

lemma scalars_apply_regular_move:
  "halfmove_clock (fst (apply_regular_move s m)) = halfmove_clock s"
  "fullmove_number (fst (apply_regular_move s m)) = fullmove_number s"
  "current_player (fst (apply_regular_move s m)) = current_player s"
  by (simp_all add: apply_regular_move_def Let_def scalars_bb_set split: option.splits)

lemma scalars_apply_move_step:
  assumes "apply_move_step s m = Some (moved, was)"
  shows "halfmove_clock moved = halfmove_clock s"
    and "fullmove_number moved = fullmove_number s"
    and "current_player moved = current_player s"
  using assms scalars_apply_regular_move [of s m]
  by (auto simp: apply_move_step_def scalars_apply_castling scalars_apply_en_passant
      scalars_handle_promotion split: if_splits)

text \<open>An accepted move went through the dispatch and the three updaters.\<close>

lemma apply_move_shape:
  assumes "chess_apply_move p m = Some p'"
  shows "\<exists>moved was. apply_move_step p m = Some (moved, was) \<and>
    p' = (update_move_counters (update_en_passant (update_castling_rights moved m) m) was)
            \<lparr>current_player := - current_player p\<rparr>"
  using assms unfolding chess_apply_move_def Let_def
  by (auto split: if_splits option.splits prod.splits)

lemma bb_get_subset_occ: "compute_all_occ s AND m = 0 \<Longrightarrow> bb_get pc s AND m = 0"
  by (cases pc)
    (simp_all add: compute_all_occ_def compute_white_occ_def compute_black_occ_def or_and_zero)

lemma captured_piece_none:
  assumes "\<And>pc. bb_get pc s AND m = 0"
  shows "captured_piece s w m = None"
  using assms [of WP] assms [of WN] assms [of WB] assms [of WR] assms [of WQ] assms [of WK]
    assms [of BP] assms [of BN] assms [of BB] assms [of BR] assms [of BQ] assms [of BK]
  by (simp add: captured_piece_def)

lemma bb_get_bb_set: "bb_get pc' (bb_set pc v s) = (if pc' = pc then v else bb_get pc' s)"
  by (cases pc; cases pc'; simp)

lemma moving_piece_not_pawn:
  assumes "(white_pawns s OR black_pawns s) AND fm = 0" and "moving_piece s fm = Some pc"
  shows "pc \<noteq> WP \<and> pc \<noteq> BP"
  using assms by (auto simp: moving_piece_def or_and_zero split: if_splits)

text \<open>No pawn on \<open>from\<close> and nothing on \<open>to\<close>: \<^verbatim>\<open>apply_regular_move\<close> returns false.\<close>

lemma quiet_regular_move:
  assumes "(white_pawns s OR black_pawns s) AND sq_mask (uint (move_from m)) = 0"
    and "compute_all_occ s AND sq_mask (uint (move_to m)) = 0"
  shows "snd (apply_regular_move s m) = False"
proof (cases "moving_piece s (sq_mask (uint (move_from m)))")
  case None
  then show ?thesis by (simp add: apply_regular_move_def Let_def)
next
  case (Some pc)
  let ?s1 = "bb_set pc (bb_get pc s AND NOT (sq_mask (uint (move_from m)))) s"
  have "bb_get pc' ?s1 AND sq_mask (uint (move_to m)) = 0" for pc'
    using bb_get_subset_occ [OF assms(2)]
    by (simp add: bb_get_bb_set and_not_and_zero)
  then have "captured_piece ?s1 (piece_is_white pc) (sq_mask (uint (move_to m))) = None"
    by (rule captured_piece_none)
  moreover have "pc \<noteq> WP \<and> pc \<noteq> BP"
    using moving_piece_not_pawn [OF assms(1) Some] .
  ultimately show ?thesis
    using Some by (simp add: apply_regular_move_def Let_def)
qed

lemma quiet_move_flag:
  assumes "apply_move_step s m = Some (moved, was)"
    and "(white_pawns s OR black_pawns s) AND sq_mask (uint (move_from m)) = 0"
    and "compute_all_occ s AND sq_mask (uint (move_to m)) = 0"
    and "promotion m = 0" and "is_en_passant m = 0"
  shows "\<not> was"
  using assms(1,4,5) quiet_regular_move [OF assms(2,3)]
  by (auto simp: apply_move_step_def split: if_splits)

lemma counters_after_update:
  "halfmove_clock ((update_move_counters s was)\<lparr>current_player := c\<rparr>) =
     (if was then 0 else halfmove_clock s + 1)"
  "fullmove_number ((update_move_counters s was)\<lparr>current_player := c\<rparr>) =
     (if current_player s = -1 then fullmove_number s + 1 else fullmove_number s)"
  by (simp_all add: update_move_counters_def Let_def)

lemma unat_succ_u8: "unat ((w::u8) + 1) = (unat w + 1) mod 256"
  by (simp add: unat_word_ariths)

lemma halfmove_iterate:
  "halfmove_clock (((\<lambda>s. update_move_counters s False) ^^ n) s) = halfmove_clock s + of_nat n"
  by (induction n) (simp_all add: update_move_counters_def Let_def)

section \<open>En-passant target after a double push\<close>

text \<open>
  Claim C1 (the code departs from it).  From the initial position the generator emits the
  double push e2-e4 and \<open>chess_apply_move\<close> accepts it, yet the returned position has
  \<open>en_passant = 255\<close> and not the skipped square 20 (= 12 + 8): \<open>update_en_passant\<close>
  looks for the pawn on \<open>from\<close> in the position in which it has already left that square.
\<close>

theorem double_push_leaves_en_passant_unset:
  "e2e4 \<in> set (chess_get_moves initialize_board)
   \<and> white_pawns initialize_board AND sq_mask (uint (move_from e2e4)) \<noteq> 0
   \<and> uint (move_to e2e4) - uint (move_from e2e4) = 16
   \<and> map_option en_passant (chess_apply_move initialize_board e2e4) = Some 255"
  by code_simp

section \<open>Castling rights after king and rook moves\<close>

text \<open>
  Claim C2 (the code departs from it).  With kings on e1/e8 and rooks on the four corners,
  all rights set: the king move e1-e2 and the rook capture a1xa8 are both generated and
  accepted, and both leave \<open>castling_rights = 15\<close>.  \<open>update_castling_rights\<close> tests the
  \<open>from\<close> square of the position after the move, where it is empty.
\<close>

theorem king_and_rook_moves_keep_castling_rights:
  "mk_move 4 12 \<in> set (chess_get_moves pos_rooks_kings)
   \<and> map_option castling_rights (chess_apply_move pos_rooks_kings (mk_move 4 12)) = Some 15
   \<and> mk_move 0 56 \<in> set (chess_get_moves pos_rooks_kings)
   \<and> map_option castling_rights (chess_apply_move pos_rooks_kings (mk_move 0 56)) = Some 15"
  by code_simp

section \<open>Pawn attacks\<close>

text \<open>
  Claim C3 (the code departs from it).  With a white pawn on e4 (28) and a black pawn on
  d5 (35): square 35 has the white pawn on 35 - 7 and is not on the a-file, the generator
  lets that pawn capture on 35, but \<open>is_attacked_by_pawn\<close> with White as attacker answers
  false for 35 and true for 21 (= 28 - 7), the square diagonally behind the pawn.  With
  Black as attacker it answers false for 28, which has the black pawn on 28 + 7, and true
  for 42 (= 35 + 7).
\<close>

theorem pawn_attack_direction_reversed:
  "white_pawns pos_pawn_e4 AND sq_mask (35 - 7) \<noteq> 0 \<and> (35::int) mod 8 \<noteq> 0
   \<and> mk_move 28 35 \<in> set (chess_get_moves pos_pawn_e4)
   \<and> is_attacked_by_pawn pos_pawn_e4 35 1 = False
   \<and> is_attacked_by_pawn pos_pawn_e4 21 1 = True
   \<and> black_pawns pos_pawn_e4 AND sq_mask (28 + 7) \<noteq> 0
   \<and> is_attacked_by_pawn pos_pawn_e4 28 (-1) = False
   \<and> is_attacked_by_pawn pos_pawn_e4 42 (-1) = True"
  by code_simp

section \<open>Castling through attacked squares\<close>

text \<open>
  Claim C4 (the code departs from it).  In \<open>pos_b1_attacked\<close> the generator emits the
  queenside castle; the white king is not in check, and neither d1 (3) nor c1 (2), the
  squares the king passes or reaches, is attacked by Black.  Only b1 (1), which the rook
  alone crosses, is attacked, and \<open>chess_apply_move\<close> rejects the castle:
  \<open>get_castling_squares\<close> hands \<open>is_legal_castle\<close> the squares b1 and d1.
\<close>

theorem castle_rejected_when_only_b1_attacked:
  "white_long_castle \<in> set (chess_get_moves pos_b1_attacked)
   \<and> \<not> is_king_in_check pos_b1_attacked 1
   \<and> \<not> is_square_attacked pos_b1_attacked 3 (-1)
   \<and> \<not> is_square_attacked pos_b1_attacked 2 (-1)
   \<and> is_square_attacked pos_b1_attacked 1 (-1)
   \<and> get_castling_squares 4 2 = [1, 3]
   \<and> chess_apply_move pos_b1_attacked white_long_castle = None"
  by code_simp

section \<open>The mover's king after an accepted move\<close>

text \<open>
  What the last guard of \<open>chess_apply_move\<close> gives: in a returned position the
  predicate \<open>is_king_in_check\<close> is false for the player who moved.  This is a statement
  about the predicate as the code computes it, whatever squares it looks at.
\<close>

lemma apply_move_guard:
  "chess_apply_move p m = Some p' \<Longrightarrow> \<not> is_king_in_check p' (current_player p)"
  unfolding chess_apply_move_def Let_def
  by (auto split: if_splits option.splits prod.splits)

text \<open>
  Claim C5 (the code departs from it).  In \<open>pos_pawn_d3\<close> White is to move and the
  generator emits the king move e1-e2; \<open>chess_apply_move\<close> accepts it and returns
  \<open>pos_pawn_d3_after\<close>.  There the white king stands on e2 (12), the black pawn stands
  on d3 = 12 + 7 and e2 is not on the h-file, so the pawn attacks the king: the generator,
  run for Black on the returned position, emits the pawn capture d3xe2 onto the king's
  square.  The mover's king is in check after an accepted move.  The guard does not see
  it: \<open>is_king_in_check\<close> answers false, because \<open>is_attacked_by_pawn\<close> with Black as
  attacker tests the squares 12 - 7 and 12 - 9 and not 12 + 7 and 12 + 9.
\<close>

theorem accepted_move_leaves_king_attacked_by_pawn:
  "current_player pos_pawn_d3 = 1
   \<and> mk_move 4 12 \<in> set (chess_get_moves pos_pawn_d3)
   \<and> chess_apply_move pos_pawn_d3 (mk_move 4 12) = Some pos_pawn_d3_after
   \<and> get_king_position pos_pawn_d3_after 1 = 12
   \<and> black_pawns pos_pawn_d3_after AND sq_mask (12 + 7) \<noteq> 0 \<and> (12::int) mod 8 \<noteq> 7
   \<and> mk_move 19 12 \<in> set (chess_get_moves pos_pawn_d3_after)
   \<and> is_attacked_by_pawn pos_pawn_d3_after 12 (-1) = False
   \<and> is_king_in_check pos_pawn_d3_after 1 = False"
  by code_simp

section \<open>Opening position\<close>

text \<open>
  Claim C9.  \<open>chess_get_moves\<close> on the position built by \<open>initialize_board\<close> returns a
  vector of exactly 20 moves.
\<close>

theorem initial_position_has_20_moves:
  "chess_get_num_moves (chess_get_moves initialize_board) = 20"
  by code_simp

section \<open>Move counters are 8-bit\<close>

text \<open>
  Claim C10.  For an accepted move with no pawn on its \<open>from\<close> square, an empty \<open>to\<close>
  square, no promotion and no en-passant flag (for generated moves: neither a pawn move nor
  a capture), the new \<open>halfmove_clock\<close> is the old one plus 1 in 8-bit arithmetic, that
  is \<open>(old + 1) mod 256\<close>; when Black moved, the new \<open>fullmove_number\<close> is
  \<open>(old + 1) mod 256\<close>; and 256 counter updates of the first kind bring
  \<open>halfmove_clock\<close> back to where it started.
\<close>

theorem move_counters_wrap_mod_256:
  "chess_apply_move p m = Some p' \<Longrightarrow>
     ((white_pawns p OR black_pawns p) AND sq_mask (uint (move_from m)) = 0 \<and>
      compute_all_occ p AND sq_mask (uint (move_to m)) = 0 \<and>
      promotion m = 0 \<and> is_en_passant m = 0
        \<longrightarrow> halfmove_clock p' = halfmove_clock p + 1 \<and>
            unat (halfmove_clock p') = (unat (halfmove_clock p) + 1) mod 256) \<and>
     (current_player p = -1
        \<longrightarrow> fullmove_number p' = fullmove_number p + 1 \<and>
            unat (fullmove_number p') = (unat (fullmove_number p) + 1) mod 256) \<and>
     halfmove_clock (((\<lambda>s. update_move_counters s False) ^^ 256) p) = halfmove_clock p"
proof -
  assume run: "chess_apply_move p m = Some p'"
  from apply_move_shape [OF run] obtain moved was where
    step: "apply_move_step p m = Some (moved, was)" and
    p': "p' = (update_move_counters (update_en_passant (update_castling_rights moved m) m) was)
            \<lparr>current_player := - current_player p\<rparr>"
    by blast
  note kept = scalars_apply_move_step [OF step]
  have hm: "halfmove_clock p' = (if was then 0 else halfmove_clock p + 1)"
    by (simp add: p' counters_after_update scalars_update_en_passant
        scalars_update_castling_rights kept)
  have fm: "fullmove_number p' =
      (if current_player p = -1 then fullmove_number p + 1 else fullmove_number p)"
    by (simp add: p' counters_after_update scalars_update_en_passant
        scalars_update_castling_rights kept)
  have wrap: "halfmove_clock (((\<lambda>s. update_move_counters s False) ^^ 256) p) = halfmove_clock p"
    by (simp add: halfmove_iterate)
  show ?thesis
    using hm fm wrap quiet_move_flag [OF step] by (auto simp: unat_succ_u8)
qed

theorem move_counters_wrap_mod_256_witness:
  "chess_apply_move pos_clock_255 (mk_move 57 42) = Some pos_clock_255_after
   \<and> (white_pawns pos_clock_255 OR black_pawns pos_clock_255) AND sq_mask (uint (move_from (mk_move 57 42))) = 0
   \<and> compute_all_occ pos_clock_255 AND sq_mask (uint (move_to (mk_move 57 42))) = 0
   \<and> promotion (mk_move 57 42) = 0 \<and> is_en_passant (mk_move 57 42) = 0
   \<and> current_player pos_clock_255 = -1
   \<and> halfmove_clock pos_clock_255 = 255 \<and> halfmove_clock pos_clock_255_after = 0
   \<and> unat (halfmove_clock pos_clock_255_after) = (unat (halfmove_clock pos_clock_255) + 1) mod 256
   \<and> fullmove_number pos_clock_255 = 255 \<and> fullmove_number pos_clock_255_after = 0
   \<and> unat (fullmove_number pos_clock_255_after) = (unat (fullmove_number pos_clock_255) + 1) mod 256"
proof -
  have run: "chess_apply_move pos_clock_255 (mk_move 57 42) = Some pos_clock_255_after"
    by code_simp
  have pre: "(white_pawns pos_clock_255 OR black_pawns pos_clock_255) AND sq_mask (uint (move_from (mk_move 57 42))) = 0
     \<and> compute_all_occ pos_clock_255 AND sq_mask (uint (move_to (mk_move 57 42))) = 0
     \<and> promotion (mk_move 57 42) = 0 \<and> is_en_passant (mk_move 57 42) = 0"
    by code_simp
  have black: "current_player pos_clock_255 = -1"
    by code_simp
  have vals: "halfmove_clock pos_clock_255 = 255 \<and> halfmove_clock pos_clock_255_after = 0
     \<and> fullmove_number pos_clock_255 = 255 \<and> fullmove_number pos_clock_255_after = 0"
    by code_simp
  from move_counters_wrap_mod_256 [OF run] pre black vals run show ?thesis
    by blast
qed

section \<open>Equal positions hash alike\<close>

lemma chess_equals_state_eq: "chess_equals_state p q = 1 \<Longrightarrow> p = q"
  by (cases p; cases q) (simp add: chess_equals_state_def split: if_splits)

text \<open>
  Claim C8.  For any state of the Zobrist module (in particular after
  \<open>chess_hash_init\<close>): when \<open>chess_equals_state p q\<close> returns 1 the two hashes are equal,
  and the hash of \<open>chess_copy_state p\<close> is the hash of \<open>p\<close>.
\<close>

theorem equal_positions_hash_alike:
  "(chess_equals_state p q = 1 \<longrightarrow> chess_hash_state z p = chess_hash_state z q)
   \<and> chess_hash_state z (chess_copy_state p) = chess_hash_state z p"
  using chess_equals_state_eq [of p q] by (auto simp: chess_copy_state_def)

theorem equal_positions_hash_alike_witness:
  "zobrist_initialized (chess_hash_init 0 zobrist_module_start)
   \<and> chess_equals_state g_final_state1 (initialize_board\<lparr>white_pawns := 0x2FD00, current_player := -1\<rparr>) = 1
   \<and> chess_hash_state (chess_hash_init 0 zobrist_module_start) g_final_state1
       = chess_hash_state (chess_hash_init 0 zobrist_module_start)
           (initialize_board\<lparr>white_pawns := 0x2FD00, current_player := -1\<rparr>)
   \<and> chess_hash_state (chess_hash_init 0 zobrist_module_start) (chess_copy_state g_final_state1)
       = chess_hash_state (chess_hash_init 0 zobrist_module_start) g_final_state1"
proof -
  have init: "zobrist_initialized (chess_hash_init 0 zobrist_module_start)"
    by (simp add: chess_hash_init_def zobrist_module_start_def Let_def)
  have eq: "chess_equals_state g_final_state1 (initialize_board\<lparr>white_pawns := 0x2FD00, current_player := -1\<rparr>) = 1"
    by code_simp
  from init eq
    equal_positions_hash_alike [of g_final_state1 "initialize_board\<lparr>white_pawns := 0x2FD00, current_player := -1\<rparr>"
      "chess_hash_init 0 zobrist_module_start"]
  show ?thesis by blast
qed

section \<open>The table keeps pointers, not copies\<close>

lemma store_walk_found:
  "store_walk eq_cb key val ch = Inr (Some ch') \<Longrightarrow> lookup_walk eq_cb key ch' = Inr val"
proof (induction ch arbitrary: ch')
  case Nil
  then show ?case by simp
next
  case (Cons kv rest)
  obtain k v where kv: "kv = (k, v)" by (cases kv)
  show ?case
  proof (cases "eq_cb k key")
    case (Inl e)
    with Cons.prems kv show ?thesis by simp
  next
    case (Inr r)
    show ?thesis
    proof (cases "r \<noteq> 0")
      case True
      with Cons.prems kv Inr show ?thesis by auto
    next
      case False
      with Cons.prems kv Inr obtain rest' where
        rest': "store_walk eq_cb key val rest = Inr (Some rest')" and ch': "ch' = (k, v) # rest'"
        by (auto split: sum.splits option.splits)
      from Cons.IH [OF rest'] ch' Inr False show ?thesis by simp
    qed
  qed
qed

lemma cache_lookup_after_store:
  assumes "cache_store hash_cb eq_cb c key a = Inr c'"
    and "key \<noteq> 0" and "eq_cb key key = Inr r" and "r \<noteq> 0"
  shows "cache_lookup hash_cb eq_cb c' key = Inr a"
proof -
  from assms(1,2) obtain h where h: "hash_cb key = Inr h"
    by (auto simp: cache_store_def split: sum.splits)
  let ?i = "get_bucket_index h (capacity c)"
  show ?thesis
  proof (cases "store_walk eq_cb key a (buckets c ?i)")
    case (Inl e)
    with assms(1,2) h show ?thesis by (simp add: cache_store_def Let_def)
  next
    case (Inr res)
    show ?thesis
    proof (cases res)
      case None
      with Inr assms(1,2) h have "c' = c\<lparr>buckets := (buckets c)(?i := (key, a) # buckets c ?i)\<rparr>"
        by (simp add: cache_store_def Let_def)
      with assms(2,3,4) h show ?thesis by (simp add: cache_lookup_def)
    next
      case (Some ch')
      with Inr assms(1,2) h have "c' = c\<lparr>buckets := (buckets c)(?i := ch')\<rparr>"
        by (simp add: cache_store_def Let_def)
      with assms(2) h store_walk_found [of eq_cb key a "buckets c ?i" ch'] Inr Some
      show ?thesis by (simp add: cache_lookup_def)
    qed
  qed
qed

text \<open>
  Claim C7 as stated fails.  The entry object at address 2 holds \<open>entry_at_store\<close> when
  it is stored under the root key; the caller then overwrites the object with
  \<open>entry_mutated\<close>, and the lookup yields \<open>entry_mutated\<close>, not the entry as of the
  store; once the object is gone the lookup reads a dead object.
\<close>

theorem lookup_sees_later_mutation:
  "store_then_lookup (hash_cb_of fake_gd (start_world 0)) (eq_cb_of fake_gd (start_world 0))
      cache_create 1 2 (entry_at 2 entry_at_store) = Inr (Some entry_at_store)
   \<and> store_then_lookup (hash_cb_of fake_gd (start_world 0)) (eq_cb_of fake_gd (start_world 0))
      cache_create 1 2 (entry_at 2 entry_mutated) = Inr (Some entry_mutated)
   \<and> entry_mutated \<noteq> entry_at_store
   \<and> store_then_lookup (hash_cb_of fake_gd (start_world 0)) (eq_cb_of fake_gd (start_world 0))
      cache_create 1 2 no_entries = Inl Use_After_Free"
  by (simp add: store_then_lookup_def lookup_entry_def cache_store_def cache_lookup_def
      cache_create_def hash_cb_of_def eq_cb_of_def fake_gd_def fake_hash_state_def
      start_world_def get_bucket_index_def INITIAL_CAPACITY_def entry_at_store_def
      entry_mutated_def entry_at_def no_entries_def Let_def)

text \<open>
  Claim C7 as amended.  \<open>cache_store\<close> keeps the caller's value pointer, not a copy: when
  a store of pointer \<open>a\<close> under a non-null key succeeds and the key equals itself under
  \<open>eq_cb\<close>, a later \<open>cache_lookup\<close> for that key returns \<open>a\<close> itself, so the entry read
  through it is whatever the caller's memory \<open>entries'\<close> holds at \<open>a\<close> at that time: the
  stored entry if the object is untouched, the new content if it was mutated, and a dead
  object if it was released.
\<close>

theorem lookup_returns_stored_pointer:
  assumes "cache_store hash_cb eq_cb c key a = Inr c'"
    and "key \<noteq> 0" and "eq_cb key key = Inr r" and "r \<noteq> 0" and "a \<noteq> 0"
  shows "cache_lookup hash_cb eq_cb c' key = Inr a
    \<and> lookup_entry hash_cb eq_cb entries' c' key =
        (case entries' a of None \<Rightarrow> Inl Use_After_Free | Some e \<Rightarrow> Inr (Some e))"
  using cache_lookup_after_store [OF assms(1-4)] assms(5)
  by (simp add: lookup_entry_def)

theorem lookup_returns_stored_pointer_witness:
  "cache_store (hash_cb_of fake_gd (start_world 0)) (eq_cb_of fake_gd (start_world 0))
      cache_create 1 2 = Inr table_after_store
   \<and> (1::ptr) \<noteq> 0 \<and> eq_cb_of fake_gd (start_world 0) 1 1 = Inr 1 \<and> (1::int) \<noteq> 0 \<and> (2::ptr) \<noteq> 0
   \<and> cache_lookup (hash_cb_of fake_gd (start_world 0)) (eq_cb_of fake_gd (start_world 0))
        table_after_store 1 = Inr 2
   \<and> lookup_entry (hash_cb_of fake_gd (start_world 0)) (eq_cb_of fake_gd (start_world 0))
        (entry_at 2 entry_mutated) table_after_store 1 = Inr (Some entry_mutated)"
proof -
  have st: "cache_store (hash_cb_of fake_gd (start_world 0)) (eq_cb_of fake_gd (start_world 0))
      cache_create 1 2 = Inr table_after_store"
    by (simp add: cache_store_def cache_create_def hash_cb_of_def eq_cb_of_def fake_gd_def
        fake_hash_state_def start_world_def get_bucket_index_def INITIAL_CAPACITY_def
        table_after_store_def Let_def)
  have refl: "eq_cb_of fake_gd (start_world 0) 1 1 = Inr 1"
    by (simp add: eq_cb_of_def fake_gd_def start_world_def)
  have nz: "(1::ptr) \<noteq> 0" "(1::int) \<noteq> 0" "(2::ptr) \<noteq> 0"
    by simp_all
  from lookup_returns_stored_pointer [OF st nz(1) refl nz(2) nz(3)] st refl
  show ?thesis by (simp add: entry_at_def no_entries_def)
qed

section \<open>Searching with and without a table\<close>

lemmas search_defs = search_value_def start_world_def fake_gd_def fake_hash_state_def
  probe_cache_def store_entry_def store_if_cache_def node_type_of_def hash_cb_of_def eq_cb_of_def
  cache_lookup_def cache_store_def cache_create_def get_bucket_index_def INITIAL_CAPACITY_def
  INT_MIN_def INT_MAX_def Let_def

text \<open>
  Claim C6 (the code departs from it).  The run of test\_minimax.c: the test game from
  state 0 at depth 5 with the full window.  Without a table the search returns 6.  With
  an initially empty table the search reads a freed state: every entry it stores points to
  a state that is freed when the recursion returns (and to an \<^verbatim>\<open>entry\<close> variable whose
  block has ended), and the second visit of state 5 makes the bucket walk compare against
  the freed key of the first visit.
\<close>

theorem search_with_table_reads_freed_state:
  "search_value (minimax_ab fake_gd False 5 1 INT_MIN INT_MAX (start_world 0)) = Inr 6
   \<and> search_value (minimax_ab fake_gd True 5 1 INT_MIN INT_MAX (start_world 0)) = Inl Use_After_Free"
  by (simp add: search_defs)

end
